theory Spec2Isabelle
  imports Complex_Main
begin

section \<open>NIQE (Evaluate/niqe.py): a shallow embedding\<close>

text \<open>
  The module computes the NIQE score of an image: AGGD parameter estimation
  (\<open>estimate_aggd_param\<close>), the 18 features of a block (\<open>compute_feature\<close>), the
  two-scale block loop and the quality aggregation (\<open>niqe\<close>), and the entry point
  \<open>calculate_niqe\<close>.

  Numbers. A NumPy float is modelled by \<open>npfloat\<close>: a real number, the two
  infinities, or NaN. The arithmetic follows IEEE 754 where it leaves the reals
  (\<open>0/0\<close>, \<open>x/0\<close>, \<open>inf - inf\<close>, \<open>0 * inf\<close>, the root of a negative number,
  comparisons with NaN); rounding, overflow and the sign of zero are not modelled.
  NumPy does not raise on any of these operations (it warns), so they are total here.

  Library code. \<open>scipy.ndimage.convolve\<close>, \<open>numpy.linalg.pinv\<close>, \<open>numpy.load\<close>,
  \<open>cv2.cvtColor\<close> and the functions imported from \<open>utils\<close> are parameters of the
  model (the record \<open>ext\<close>); each may raise. The Gamma function is defined by Gauss's
  limit formula.
\<close>

subsection \<open>Errors\<close>

datatype error =
    AssertionError
  | ZeroDivisionError
  | ValueError
  | IndexError
  | AxisError
  | LinAlgError
  | ExternalError string

definition ebind :: "error + 'a \<Rightarrow> ('a \<Rightarrow> error + 'b) \<Rightarrow> error + 'b" where
  "ebind m f = (case m of Inl e \<Rightarrow> Inl e | Inr x \<Rightarrow> f x)"

subsection \<open>Floating-point values\<close>

datatype npfloat = Fin real | PInf | NInf | NaN

type_synonym vec = "npfloat list"
type_synonym mat = "npfloat list list"

definition inf_of :: "real \<Rightarrow> npfloat" where
  "inf_of s = (if 0 < s then PInf else if s < 0 then NInf else NaN)"

fun fsign :: "npfloat \<Rightarrow> real" where
  "fsign (Fin x) = sgn x"
| "fsign PInf = 1"
| "fsign NInf = - 1"
| "fsign NaN = 0"

fun fisnan :: "npfloat \<Rightarrow> bool" where
  "fisnan NaN = True"
| "fisnan _ = False"

fun fneg :: "npfloat \<Rightarrow> npfloat" where
  "fneg (Fin x) = Fin (- x)"
| "fneg PInf = NInf"
| "fneg NInf = PInf"
| "fneg NaN = NaN"

fun fadd :: "npfloat \<Rightarrow> npfloat \<Rightarrow> npfloat" where
  "fadd NaN _ = NaN"
| "fadd _ NaN = NaN"
| "fadd (Fin x) (Fin y) = Fin (x + y)"
| "fadd PInf NInf = NaN"
| "fadd NInf PInf = NaN"
| "fadd PInf _ = PInf"
| "fadd _ PInf = PInf"
| "fadd NInf _ = NInf"
| "fadd _ NInf = NInf"

definition fsub :: "npfloat \<Rightarrow> npfloat \<Rightarrow> npfloat" where
  "fsub a b = fadd a (fneg b)"

fun fmul :: "npfloat \<Rightarrow> npfloat \<Rightarrow> npfloat" where
  "fmul NaN _ = NaN"
| "fmul _ NaN = NaN"
| "fmul (Fin x) (Fin y) = Fin (x * y)"
| "fmul a b = inf_of (fsign a * fsign b)"

fun fdiv :: "npfloat \<Rightarrow> npfloat \<Rightarrow> npfloat" where
  "fdiv NaN _ = NaN"
| "fdiv _ NaN = NaN"
| "fdiv (Fin x) (Fin y) = (if y = 0 then inf_of x else Fin (x / y))"
| "fdiv (Fin x) _ = Fin 0"
| "fdiv a (Fin y) = inf_of (fsign a * (if y < 0 then - 1 else 1))"
| "fdiv _ _ = NaN"

fun fsqrt :: "npfloat \<Rightarrow> npfloat" where
  "fsqrt (Fin x) = (if x < 0 then NaN else Fin (sqrt x))"
| "fsqrt PInf = PInf"
| "fsqrt NInf = NaN"
| "fsqrt NaN = NaN"

fun fabs :: "npfloat \<Rightarrow> npfloat" where
  "fabs (Fin x) = Fin \<bar>x\<bar>"
| "fabs PInf = PInf"
| "fabs NInf = PInf"
| "fabs NaN = NaN"

definition fsquare :: "npfloat \<Rightarrow> npfloat" where
  "fsquare x = fmul x x"

definition fcube :: "npfloat \<Rightarrow> npfloat" where
  "fcube x = fmul (fmul x x) x"

text \<open>Comparisons: every comparison with NaN is false.\<close>

fun flt :: "npfloat \<Rightarrow> npfloat \<Rightarrow> bool" where
  "flt NaN _ = False"
| "flt _ NaN = False"
| "flt (Fin x) (Fin y) = (x < y)"
| "flt PInf _ = False"
| "flt _ NInf = False"
| "flt _ _ = True"

definition fge :: "npfloat \<Rightarrow> npfloat \<Rightarrow> bool" where
  "fge a b = (\<not> fisnan a \<and> \<not> fisnan b \<and> \<not> flt a b)"

text \<open>\<open>v >= 0 or isnan(v)\<close>: the range of a scale parameter.\<close>

fun nonneg_or_nan :: "npfloat \<Rightarrow> bool" where
  "nonneg_or_nan (Fin x) = (0 \<le> x)"
| "nonneg_or_nan PInf = True"
| "nonneg_or_nan NInf = False"
| "nonneg_or_nan NaN = True"

subsection \<open>The Gamma function\<close>

text \<open>Gauss's formula: \<open>\<Gamma>(x) = lim n\<^sup>x n! / (x (x+1) \<dots> (x+n))\<close>.\<close>

definition Gamma_real :: "real \<Rightarrow> real" where
  "Gamma_real x = lim (\<lambda>n. real n powr x * fact n / (\<Prod>k\<le>n. x + real k))"

text \<open>
  \<open>scipy.special.gamma\<close>. The poles (\<open>x = 0, -1, -2, \<dots>\<close>) are never reached by
  this program: every argument is \<open>1/\<alpha>\<close>, \<open>2/\<alpha>\<close> or \<open>3/\<alpha>\<close> for a grid value
  \<open>\<alpha>\<close> in \<open>[0.2, 10]\<close>.
\<close>

fun gamma :: "npfloat \<Rightarrow> npfloat" where
  "gamma (Fin x) =
     (if x \<le> 0 \<and> x \<in> \<int> then (if x = 0 then PInf else NaN) else Fin (Gamma_real x))"
| "gamma PInf = PInf"
| "gamma NInf = NaN"
| "gamma NaN = NaN"

subsection \<open>NumPy reductions and index operations\<close>

definition fsum :: "vec \<Rightarrow> npfloat" where
  "fsum xs = foldl fadd (Fin 0) xs"

text \<open>\<open>np.mean\<close> of a 1-D array: the sum over the count; \<open>0/0 = NaN\<close> when it is empty.\<close>

definition np_mean :: "vec \<Rightarrow> npfloat" where
  "np_mean xs = fdiv (fsum xs) (Fin (real (length xs)))"

text \<open>
  \<open>np.nanmean\<close> of a 1-D array, as NumPy computes it: NaN entries are replaced by
  zero, and the sum is divided by the number of entries that are not NaN.
\<close>

definition np_nanmean :: "vec \<Rightarrow> npfloat" where
  "np_nanmean xs =
     fdiv (fsum (map (\<lambda>x. if fisnan x then Fin 0 else x) xs))
          (Fin (real (length (filter (\<lambda>x. \<not> fisnan x) xs))))"

text \<open>
  \<open>np.argmin\<close> on floats, as NumPy's loop runs: a NaN in first position is the
  minimum; otherwise the index moves to each entry that is not \<open>>=\<close> the current
  minimum, and stops at the first NaN. An empty array raises ValueError.
\<close>

fun argmin_loop :: "npfloat \<Rightarrow> nat \<Rightarrow> nat \<Rightarrow> vec \<Rightarrow> nat" where
  "argmin_loop mp min_ind i [] = min_ind"
| "argmin_loop mp min_ind i (x # xs) =
     (if \<not> fge x mp
      then (if fisnan x then i else argmin_loop x i (Suc i) xs)
      else argmin_loop mp min_ind (Suc i) xs)"

fun np_argmin :: "vec \<Rightarrow> error + nat" where
  "np_argmin [] = Inl ValueError"
| "np_argmin (x # xs) = (if fisnan x then Inr 0 else Inr (argmin_loop x 0 1 xs))"

text \<open>Indexing a 1-D array with a non-negative index.\<close>

definition np_index :: "'a list \<Rightarrow> nat \<Rightarrow> error + 'a" where
  "np_index xs i = (if i < length xs then Inr (xs ! i) else Inl IndexError)"

text \<open>\<open>np.arange(start, stop, step)\<close>: \<open>ceil((stop - start)/step)\<close> values \<open>start + i*step\<close>.\<close>

definition np_arange :: "real \<Rightarrow> real \<Rightarrow> real \<Rightarrow> vec" where
  "np_arange start stop step =
     map (\<lambda>i. Fin (start + real i * step)) [0..<nat \<lceil>(stop - start) / step\<rceil>]"

text \<open>\<open>np.roll\<close> along one axis, and along both axes of a 2-D array.\<close>

definition np_roll1 :: "int \<Rightarrow> 'a list \<Rightarrow> 'a list" where
  "np_roll1 s xs =
     (let n = length xs in
      if n = 0 then xs
      else (let k = nat (s mod int n) in drop (n - k) xs @ take (n - k) xs))"

definition np_roll :: "mat \<Rightarrow> int \<times> int \<Rightarrow> mat" where
  "np_roll block s = np_roll1 (fst s) (map (np_roll1 (snd s)) block)"

text \<open>Element-wise product of two arrays of one shape.\<close>

definition mat_mul :: "mat \<Rightarrow> mat \<Rightarrow> mat" where
  "mat_mul a b = map2 (map2 fmul) a b"

subsection \<open>\<open>estimate_aggd_param\<close>\<close>

definition gam :: vec where
  "gam = np_arange (2 / 10) (10001 / 1000) (1 / 1000)"

definition gam_reciprocal :: vec where
  "gam_reciprocal = map (\<lambda>g. fdiv (Fin 1) g) gam"

definition r_gam :: vec where
  "r_gam = map (\<lambda>r. fdiv (fsquare (gamma (fmul r (Fin 2))))
                        (fmul (gamma r) (gamma (fmul r (Fin 3))))) gam_reciprocal"

definition left_std :: "vec \<Rightarrow> npfloat" where
  "left_std block = fsqrt (np_mean (map fsquare (filter (\<lambda>x. flt x (Fin 0)) block)))"

definition right_std :: "vec \<Rightarrow> npfloat" where
  "right_std block = fsqrt (np_mean (map fsquare (filter (\<lambda>x. flt (Fin 0) x) block)))"

definition rhatnorm :: "vec \<Rightarrow> npfloat" where
  "rhatnorm block =
     (let gammahat = fdiv (left_std block) (right_std block);
          rhat = fdiv (fsquare (np_mean (map fabs block))) (np_mean (map fsquare block))
      in fdiv (fmul (fmul rhat (fadd (fcube gammahat) (Fin 1))) (fadd gammahat (Fin 1)))
              (fsquare (fadd (fsquare gammahat) (Fin 1))))"

definition beta_scale :: "npfloat \<Rightarrow> npfloat" where
  "beta_scale alpha =
     fsqrt (fdiv (gamma (fdiv (Fin 1) alpha)) (gamma (fdiv (Fin 3) alpha)))"

definition estimate_aggd_param :: "mat \<Rightarrow> error + (npfloat \<times> npfloat \<times> npfloat)" where
  "estimate_aggd_param block2d =
     (let block = concat block2d in
      ebind (np_argmin (map (\<lambda>r. fsquare (fsub r (rhatnorm block))) r_gam))
        (\<lambda>array_position.
      ebind (np_index gam array_position)
        (\<lambda>alpha.
      Inr (alpha,
           fmul (left_std block) (beta_scale alpha),
           fmul (right_std block) (beta_scale alpha)))))"

subsection \<open>\<open>compute_feature\<close>\<close>

definition shifts :: "(int \<times> int) list" where
  "shifts = [(0, 1), (1, 0), (1, 1), (1, - 1)]"

definition shift_mean :: "npfloat \<Rightarrow> npfloat \<Rightarrow> npfloat \<Rightarrow> npfloat" where
  "shift_mean alpha beta_l beta_r =
     fmul (fsub beta_r beta_l)
          (fdiv (gamma (fdiv (Fin 2) alpha)) (gamma (fdiv (Fin 1) alpha)))"

fun feature_loop :: "mat \<Rightarrow> (int \<times> int) list \<Rightarrow> vec \<Rightarrow> error + vec" where
  "feature_loop block [] feat = Inr feat"
| "feature_loop block (s # ss) feat =
     ebind (estimate_aggd_param (mat_mul block (np_roll block s)))
       (\<lambda>(alpha, beta_l, beta_r).
          feature_loop block ss
            (feat @ [alpha, shift_mean alpha beta_l beta_r, beta_l, beta_r]))"

definition compute_feature :: "mat \<Rightarrow> error + vec" where
  "compute_feature block =
     ebind (estimate_aggd_param block)
       (\<lambda>(alpha, beta_l, beta_r).
          feature_loop block shifts [alpha, fdiv (fadd beta_l beta_r) (Fin 2)])"

subsection \<open>Arrays with a shape, slices and ranges\<close>

text \<open>
  An n-dimensional array: its shape and its entries in row-major order. A 2-D array
  is processed as the list of its rows (\<open>mat\<close>).
\<close>

datatype ndarray = NDArray (shape: "nat list") (flat: "npfloat list")

definition rows2d :: "nat \<Rightarrow> nat \<Rightarrow> 'a list \<Rightarrow> 'a list list" where
  "rows2d h w xs = map (\<lambda>i. take w (drop (i * w) xs)) [0..<h]"

text \<open>
  A Python slice \<open>xs[a:b]\<close>: a negative bound counts from the end, and every bound
  is clamped to the length.
\<close>

definition py_clamp_index :: "int \<Rightarrow> nat \<Rightarrow> nat" where
  "py_clamp_index i n = (if i < 0 then nat (max 0 (i + int n)) else min (nat i) n)"

definition py_slice :: "int \<Rightarrow> int \<Rightarrow> 'a list \<Rightarrow> 'a list" where
  "py_slice a b xs =
     (let lo = py_clamp_index a (length xs); hi = py_clamp_index b (length xs)
      in take (hi - lo) (drop lo xs))"

text \<open>\<open>range(n)\<close>: empty when \<open>n \<le> 0\<close>.\<close>

definition py_range :: "int \<Rightarrow> int list" where
  "py_range n = map int [0..<nat n]"

text \<open>
  Element-wise binary operations on two arrays. The operands of this program have
  one shape whenever the library calls return the shape they are given; operands of
  different shapes raise ValueError (broadcasting of axes of length one is not
  modelled).
\<close>

definition mat_zip :: "(npfloat \<Rightarrow> npfloat \<Rightarrow> npfloat) \<Rightarrow> mat \<Rightarrow> mat \<Rightarrow> error + mat" where
  "mat_zip f a b =
     (if map length a = map length b then Inr (map2 (map2 f) a b) else Inl ValueError)"

definition vec_zip :: "(npfloat \<Rightarrow> npfloat \<Rightarrow> npfloat) \<Rightarrow> vec \<Rightarrow> vec \<Rightarrow> error + vec" where
  "vec_zip f a b = (if length a = length b then Inr (map2 f a b) else Inl ValueError)"

definition ncols :: "mat \<Rightarrow> nat" where
  "ncols m = (case m of [] \<Rightarrow> 0 | r # _ \<Rightarrow> length r)"

definition column :: "mat \<Rightarrow> nat \<Rightarrow> vec" where
  "column m j = map (\<lambda>row. row ! j) m"

subsection \<open>Library functions taken as parameters\<close>

record pris_params =
  mu_pris_param :: vec
  cov_pris_param :: mat
  gaussian_window :: mat

text \<open>
  \<open>convolve a w\<close> is \<open>scipy.ndimage.convolve(a, w, mode='nearest')\<close>;
  \<open>imresize a\<close> is \<open>utils.imresize(a, scale=0.5, antialiasing=True)\<close>;
  \<open>pinv\<close> is \<open>numpy.linalg.pinv\<close>; \<open>np_load\<close> reads the three arrays of the
  parameter file; \<open>reorder_image\<close> and \<open>to_y_channel\<close> are those of \<open>utils\<close>;
  \<open>cvt_gray\<close> is \<open>cv2.cvtColor(_, cv2.COLOR_BGR2GRAY)\<close>.
\<close>

record ext =
  convolve :: "mat \<Rightarrow> mat \<Rightarrow> error + mat"
  imresize :: "mat \<Rightarrow> error + mat"
  pinv :: "mat \<Rightarrow> error + mat"
  np_load :: "string \<Rightarrow> error + pris_params"
  reorder_image :: "ndarray \<Rightarrow> string \<Rightarrow> error + ndarray"
  to_y_channel :: "ndarray \<Rightarrow> error + ndarray"
  cvt_gray :: "ndarray \<Rightarrow> error + ndarray"

subsection \<open>\<open>niqe\<close>: shape check and crop (lines 86 to 91)\<close>

text \<open>
  \<open>math.floor(h / block_size_h)\<close> is the floor of the quotient: \<open>h div block_size_h\<close>
  (the float division is exact enough for every image size); a zero block size
  raises ZeroDivisionError.
\<close>

definition niqe_crop :: "ndarray \<Rightarrow> int \<Rightarrow> int \<Rightarrow> error + (int \<times> int \<times> mat)" where
  "niqe_crop img block_size_h block_size_w =
     (if length (shape img) \<noteq> 2 then Inl AssertionError
      else
        (let h = shape img ! 0; w = shape img ! 1 in
         if block_size_h = 0 then Inl ZeroDivisionError
         else
           (let num_block_h = int h div block_size_h in
            if block_size_w = 0 then Inl ZeroDivisionError
            else
              (let num_block_w = int w div block_size_w in
               Inr (num_block_h, num_block_w,
                    map (py_slice 0 (num_block_w * block_size_w))
                        (py_slice 0 (num_block_h * block_size_h) (rows2d h w (flat img))))))))"

subsection \<open>\<open>niqe\<close>: the two-scale block loop (lines 93 to 114)\<close>

definition normalize :: "ext \<Rightarrow> mat \<Rightarrow> mat \<Rightarrow> error + mat" where
  "normalize e img window =
     ebind (convolve e img window) (\<lambda>mu.
     ebind (convolve e (map (map fsquare) img) window) (\<lambda>m2.
     ebind (mat_zip fsub m2 (map (map fsquare) mu)) (\<lambda>d.
     ebind (mat_zip fsub img mu) (\<lambda>num.
       mat_zip fdiv num
         (map (map (\<lambda>x. fadd (fsqrt (fabs x)) (Fin 1))) d)))))"

definition block_at :: "mat \<Rightarrow> int \<Rightarrow> int \<Rightarrow> int \<Rightarrow> int \<Rightarrow> int \<Rightarrow> mat" where
  "block_at img idx_h idx_w block_size_h block_size_w scale =
     map (py_slice ((idx_w * block_size_w) div scale) (((idx_w + 1) * block_size_w) div scale))
         (py_slice ((idx_h * block_size_h) div scale) (((idx_h + 1) * block_size_h) div scale)
            img)"

text \<open>The inner loop (over \<open>idx_h\<close>) and the outer loop (over \<open>idx_w\<close>); each appends to \<open>feat\<close>.\<close>

fun rows_loop :: "(int \<Rightarrow> error + vec) \<Rightarrow> int list \<Rightarrow> mat \<Rightarrow> error + mat" where
  "rows_loop f [] feat = Inr feat"
| "rows_loop f (idx_h # rest) feat =
     ebind (f idx_h) (\<lambda>v. rows_loop f rest (feat @ [v]))"

fun cols_loop :: "(int \<Rightarrow> int \<Rightarrow> error + vec) \<Rightarrow> int list \<Rightarrow> int list \<Rightarrow> mat \<Rightarrow> error + mat" where
  "cols_loop g [] hs feat = Inr feat"
| "cols_loop g (idx_w # rest) hs feat =
     ebind (rows_loop (g idx_w) hs feat) (\<lambda>feat'. cols_loop g rest hs feat')"

definition scale_features ::
  "ext \<Rightarrow> mat \<Rightarrow> int \<Rightarrow> int \<Rightarrow> int \<Rightarrow> int \<Rightarrow> int \<Rightarrow> mat \<Rightarrow> error + mat" where
  "scale_features e window num_block_h num_block_w block_size_h block_size_w scale img =
     ebind (normalize e img window) (\<lambda>img_nomalized.
       cols_loop
         (\<lambda>idx_w idx_h.
            compute_feature (block_at img_nomalized idx_h idx_w block_size_h block_size_w scale))
         (py_range num_block_w) (py_range num_block_h) [])"

definition downsample :: "ext \<Rightarrow> mat \<Rightarrow> error + mat" where
  "downsample e img =
     ebind (imresize e (map (map (\<lambda>x. fdiv x (Fin 255))) img)) (\<lambda>r.
       Inr (map (map (\<lambda>x. fmul x (Fin 255))) r))"

fun scales_loop ::
  "ext \<Rightarrow> mat \<Rightarrow> int \<Rightarrow> int \<Rightarrow> int \<Rightarrow> int \<Rightarrow> int list \<Rightarrow> mat \<Rightarrow> mat list \<Rightarrow> error + mat list" where
  "scales_loop e window nbh nbw bsh bsw [] img distparam = Inr distparam"
| "scales_loop e window nbh nbw bsh bsw (scale # rest) img distparam =
     ebind (scale_features e window nbh nbw bsh bsw scale img) (\<lambda>feat.
     ebind (if scale = 1 then downsample e img else Inr img) (\<lambda>img'.
       scales_loop e window nbh nbw bsh bsw rest img' (distparam @ [feat])))"

text \<open>
  \<open>np.concatenate(arrays, axis=1)\<close> of the arrays \<open>np.array(feat)\<close>. An empty \<open>feat\<close>
  gives a 1-D array of length zero, for which axis 1 is out of bounds (AxisError);
  arrays of different dimension or row count raise ValueError.
\<close>

definition np_concatenate_axis1 :: "mat list \<Rightarrow> error + mat" where
  "np_concatenate_axis1 arrays =
     (if arrays = [] then Inl ValueError
      else if hd arrays = [] then Inl AxisError
      else if list_ex (\<lambda>a. length a \<noteq> length (hd arrays)) arrays then Inl ValueError
      else Inr (map (\<lambda>i. concat (map (\<lambda>a. a ! i) arrays)) [0..<length (hd arrays)]))"

definition niqe_distparam :: "ext \<Rightarrow> ndarray \<Rightarrow> mat \<Rightarrow> int \<Rightarrow> int \<Rightarrow> error + mat" where
  "niqe_distparam e img window block_size_h block_size_w =
     ebind (niqe_crop img block_size_h block_size_w) (\<lambda>(num_block_h, num_block_w, img').
     ebind (scales_loop e window num_block_h num_block_w block_size_h block_size_w
              [1, 2] img' [])
       np_concatenate_axis1)"

subsection \<open>\<open>niqe\<close>: the quality score (lines 116 to 129)\<close>

definition mu_distparam :: "mat \<Rightarrow> vec" where
  "mu_distparam distparam =
     map (\<lambda>j. np_nanmean (column distparam j)) [0..<ncols distparam]"

definition distparam_no_nan :: "mat \<Rightarrow> mat" where
  "distparam_no_nan distparam = filter (\<lambda>row. \<not> list_ex fisnan row) distparam"

text \<open>
  \<open>np.cov(m, rowvar=False)\<close> for \<open>k\<close> variables (the columns) and the observations
  \<open>m\<close> (the rows): the normalisation is \<open>n - 1\<close>, replaced by \<open>0.0\<close> when it is not
  positive, so that no row, or one row, gives \<open>0 * inf = NaN\<close> everywhere. (A single
  row follows NumPy 2; NumPy 1 does not transpose a single row. The width \<open>k\<close> is
  passed because a list of no rows has lost it.)
\<close>

definition np_cov :: "nat \<Rightarrow> mat \<Rightarrow> mat" where
  "np_cov k m =
     (let fact = (if length m \<le> 1 then 0 else real (length m) - 1);
          X = map (\<lambda>j. map (\<lambda>v. fsub v (np_mean (column m j))) (column m j)) [0..<k]
      in map (\<lambda>a. map (\<lambda>b. fmul (fsum (map2 fmul (X ! a) (X ! b))) (fdiv (Fin 1) (Fin fact)))
                     [0..<k]) [0..<k])"

definition cov_distparam :: "mat \<Rightarrow> mat" where
  "cov_distparam distparam = np_cov (ncols distparam) (distparam_no_nan distparam)"

definition pooled_cov :: "mat \<Rightarrow> mat \<Rightarrow> error + mat" where
  "pooled_cov cov_pris distparam =
     ebind (mat_zip fadd cov_pris (cov_distparam distparam)) (\<lambda>s.
       Inr (map (map (\<lambda>x. fdiv x (Fin 2))) s))"

text \<open>\<open>np.matmul\<close> of a row vector with a matrix, and of two vectors.\<close>

definition vec_mat :: "vec \<Rightarrow> mat \<Rightarrow> error + vec" where
  "vec_mat v m =
     (if length m = length v \<and> \<not> list_ex (\<lambda>row. length row \<noteq> ncols m) m
      then Inr (map (\<lambda>j. fsum (map2 fmul v (column m j))) [0..<ncols m])
      else Inl ValueError)"

definition vec_dot :: "vec \<Rightarrow> vec \<Rightarrow> error + npfloat" where
  "vec_dot u v = (if length u = length v then Inr (fsum (map2 fmul u v)) else Inl ValueError)"

definition quadratic_form :: "vec \<Rightarrow> vec \<Rightarrow> mat \<Rightarrow> error + npfloat" where
  "quadratic_form mu_pris mu_dist invcov_param =
     ebind (vec_zip fsub mu_pris mu_dist) (\<lambda>d.
     ebind (vec_mat d invcov_param) (\<lambda>t.
       vec_dot t d))"

definition niqe_score :: "vec \<Rightarrow> vec \<Rightarrow> mat \<Rightarrow> error + npfloat" where
  "niqe_score mu_pris mu_dist invcov_param =
     ebind (quadratic_form mu_pris mu_dist invcov_param) (\<lambda>quality. Inr (fsqrt quality))"

definition niqe_quality :: "ext \<Rightarrow> vec \<Rightarrow> mat \<Rightarrow> mat \<Rightarrow> error + npfloat" where
  "niqe_quality e mu_pris cov_pris distparam =
     ebind (pooled_cov cov_pris distparam) (\<lambda>pooled.
     ebind (pinv e pooled) (\<lambda>invcov_param.
       niqe_score mu_pris (mu_distparam distparam) invcov_param))"

definition niqe :: "ext \<Rightarrow> ndarray \<Rightarrow> vec \<Rightarrow> mat \<Rightarrow> mat \<Rightarrow> int \<Rightarrow> int \<Rightarrow> error + npfloat" where
  "niqe e img mu_pris cov_pris window block_size_h block_size_w =
     ebind (niqe_distparam e img window block_size_h block_size_w)
       (niqe_quality e mu_pris cov_pris)"

subsection \<open>\<open>calculate_niqe\<close>\<close>

datatype pyvalue = PyInt int | PyFloat npfloat | PyStr string

definition os_path_join :: "string \<Rightarrow> string \<Rightarrow> string" where
  "os_path_join a b =
     (if a = [] then b else if last a = CHR ''/'' then a @ b else a @ ''/'' @ b)"

text \<open>\<open>np.squeeze\<close> drops the axes of length one; the entries are unchanged.\<close>

definition np_squeeze :: "ndarray \<Rightarrow> ndarray" where
  "np_squeeze a = NDArray (filter (\<lambda>d. d \<noteq> 1) (shape a)) (flat a)"

text \<open>\<open>img[c:-c, c:-c]\<close>: a slice of the first two axes; fewer than two axes raise IndexError.\<close>

definition crop_border_slice :: "ndarray \<Rightarrow> int \<Rightarrow> error + ndarray" where
  "crop_border_slice a c =
     (case shape a of
        h # w # rest \<Rightarrow>
          (let chunk = prod_list rest;
               rows = py_slice c (- c) (rows2d h (w * chunk) (flat a));
               cells = map (\<lambda>row. py_slice c (- c) (rows2d w chunk row)) rows
           in Inr (NDArray (length rows # length (py_slice c (- c) [0..<w]) # rest)
                           (concat (map concat cells))))
      | _ \<Rightarrow> Inl IndexError)"

text \<open>\<open>ndarray.round()\<close>: to the nearest integer, a tie to the even one.\<close>

definition round_half_even :: "real \<Rightarrow> real" where
  "round_half_even x =
     (let f = \<lfloor>x\<rfloor>; d = x - of_int f in
      if d < 1 / 2 then of_int f
      else if 1 / 2 < d then of_int (f + 1)
      else if even f then of_int f else of_int (f + 1))"

fun fround :: "npfloat \<Rightarrow> npfloat" where
  "fround (Fin x) = Fin (round_half_even x)"
| "fround v = v"

definition nd_map :: "(npfloat \<Rightarrow> npfloat) \<Rightarrow> ndarray \<Rightarrow> ndarray" where
  "nd_map f a = NDArray (shape a) (map f (flat a))"

text \<open>
  The conversion of a colour image (lines 164 to 170). \<open>astype(np.float32)\<close> changes
  the precision only and is the identity here.
\<close>

definition to_single_channel :: "ext \<Rightarrow> ndarray \<Rightarrow> string \<Rightarrow> string \<Rightarrow> error + ndarray" where
  "to_single_channel e img input_order convert_to =
     (if input_order \<noteq> ''HW'' then
        ebind (reorder_image e img input_order) (\<lambda>img1.
        ebind (if convert_to = ''y'' then to_y_channel e img1
               else if convert_to = ''gray'' then
                 ebind (cvt_gray e (nd_map (\<lambda>x. fdiv x (Fin 255)) img1)) (\<lambda>g.
                   Inr (nd_map (\<lambda>x. fmul x (Fin 255)) g))
               else Inr img1) (\<lambda>img2.
          Inr (np_squeeze img2)))
      else Inr img)"

definition calculate_niqe ::
  "ext \<Rightarrow> ndarray \<Rightarrow> int \<Rightarrow> string \<Rightarrow> string \<Rightarrow> string \<Rightarrow> (string \<times> pyvalue) list
     \<Rightarrow> error + npfloat" where
  "calculate_niqe e img crop_border params_path input_order convert_to kwargs =
     ebind (np_load e (os_path_join params_path ''niqe_pris_params.npz'')) (\<lambda>niqe_pris_params.
     ebind (to_single_channel e img input_order convert_to) (\<lambda>img1.
     ebind (if crop_border \<noteq> 0 then crop_border_slice img1 crop_border else Inr img1) (\<lambda>img2.
       niqe e (nd_map fround img2)
         (mu_pris_param niqe_pris_params) (cov_pris_param niqe_pris_params)
         (gaussian_window niqe_pris_params) 96 96)))"

subsection \<open>The statements of the specification, for comparison\<close>

text \<open>
  The block of the specification: boundaries at the multiples of the floor-divided
  block size.
\<close>

definition block_at_spec :: "mat \<Rightarrow> int \<Rightarrow> int \<Rightarrow> int \<Rightarrow> int \<Rightarrow> int \<Rightarrow> mat" where
  "block_at_spec img idx_h idx_w block_size_h block_size_w scale =
     map (py_slice (idx_w * (block_size_w div scale)) ((idx_w + 1) * (block_size_w div scale)))
         (py_slice (idx_h * (block_size_h div scale)) ((idx_h + 1) * (block_size_h div scale))
            img)"

text \<open>The mean of the entries of a column that are not NaN.\<close>

definition spec_nan_ignoring_mean :: "vec \<Rightarrow> npfloat" where
  "spec_nan_ignoring_mean col = np_mean (filter (\<lambda>x. \<not> fisnan x) col)"

text \<open>The rows that contain no NaN in any column.\<close>

definition spec_rows_without_nan :: "mat \<Rightarrow> mat" where
  "spec_rows_without_nan distparam = filter (\<lambda>row. \<forall>x \<in> set row. \<not> fisnan x) distparam"

subsection \<open>The library functions on the inputs of the examples\<close>

text \<open>
  The examples below run the model on constant images with the 1x1 window \<open>[[1.0]]\<close>.
  There the library functions are known: convolution with the unit window returns
  its input; resampling a constant image by 0.5 gives the constant image of half the
  size (rounded up); the pseudo-inverse of a matrix with an entry that is not finite
  raises LinAlgError (the singular value decomposition does not converge). On other
  inputs the functions are not evaluated.
\<close>

fun is_finite :: "npfloat \<Rightarrow> bool" where
  "is_finite (Fin x) = True"
| "is_finite _ = False"

definition not_evaluated :: error where
  "not_evaluated = ExternalError ''not evaluated''"

definition convolve_example :: "mat \<Rightarrow> mat \<Rightarrow> error + mat" where
  "convolve_example a w = (if w = [[Fin 1]] then Inr a else Inl not_evaluated)"

definition imresize_example :: "mat \<Rightarrow> error + mat" where
  "imresize_example a =
     (if a \<noteq> [] \<and> hd a \<noteq> []
         \<and> a = replicate (length a) (replicate (length (hd a)) (hd (hd a)))
      then Inr (replicate ((length a + 1) div 2)
                  (replicate ((length (hd a) + 1) div 2) (hd (hd a))))
      else Inl not_evaluated)"

definition pinv_example :: "mat \<Rightarrow> error + mat" where
  "pinv_example m =
     (if list_ex (list_ex (\<lambda>x. \<not> is_finite x)) m then Inl LinAlgError
      else Inl not_evaluated)"

definition ext_example :: ext where
  "ext_example =
     \<lparr> convolve = convolve_example,
       imresize = imresize_example,
       pinv = pinv_example,
       np_load = (\<lambda>path. Inl not_evaluated),
       reorder_image = (\<lambda>img input_order. Inl not_evaluated),
       to_y_channel = (\<lambda>img. Inl not_evaluated),
       cvt_gray = (\<lambda>img. Inl not_evaluated) \<rparr>"

text \<open>
  The 18 features of a block with neither a negative nor a positive entry (an all-zero
  block): every \<open>alpha\<close> is the first grid value and every other entry is NaN.
\<close>

definition zero_block_feature :: vec where
  "zero_block_feature =
     [Fin (1 / 5), NaN, Fin (1 / 5), NaN, NaN, NaN, Fin (1 / 5), NaN, NaN, NaN,
      Fin (1 / 5), NaN, NaN, NaN, Fin (1 / 5), NaN, NaN, NaN]"

section \<open>Properties\<close>

subsection \<open>Basic facts\<close>

lemma ebind_Inl [simp]: "ebind (Inl e) f = Inl e"
  by (simp add: ebind_def)

lemma ebind_Inr [simp]: "ebind (Inr x) f = f x"
  by (simp add: ebind_def)

lemma fmul_NaN_right [simp]: "fmul a NaN = NaN"
  by (cases a) simp_all

lemma fadd_NaN_right [simp]: "fadd a NaN = NaN"
  by (cases a) simp_all

lemma fdiv_NaN_right [simp]: "fdiv a NaN = NaN"
  by (cases a) simp_all

lemma fadd_zero_right [simp]: "fadd a (Fin 0) = a"
  by (cases a) simp_all

lemma fsub_NaN_right [simp]: "fsub a NaN = NaN"
  by (simp add: fsub_def)

lemma fsquare_NaN [simp]: "fsquare NaN = NaN"
  by (simp add: fsquare_def)

lemma nonneg_or_nan_fsqrt: "nonneg_or_nan (fsqrt x)"
  by (cases x) simp_all

lemma nonneg_or_nan_fmul:
  "nonneg_or_nan a \<Longrightarrow> nonneg_or_nan b \<Longrightarrow> nonneg_or_nan (fmul a b)"
  by (cases a; cases b) (auto simp: inf_of_def sgn_if)

lemma argmin_loop_bound:
  "min_ind < i \<Longrightarrow> argmin_loop mp min_ind i xs < i + length xs"
proof (induction xs arbitrary: mp min_ind i)
  case Nil
  then show ?case by simp
next
  case (Cons x xs)
  have a: "argmin_loop x i (Suc i) xs < Suc i + length xs"
    by (rule Cons.IH) simp
  have b: "argmin_loop mp min_ind (Suc i) xs < Suc i + length xs"
    by (rule Cons.IH) (use Cons.prems in simp)
  show ?case using a b by simp
qed

lemma np_argmin_bound: "np_argmin xs = Inr i \<Longrightarrow> i < length xs"
proof (cases xs)
  case Nil
  assume "np_argmin xs = Inr i"
  with Nil show ?thesis by simp
next
  case (Cons x ys)
  assume h: "np_argmin xs = Inr i"
  have "argmin_loop x 0 1 ys < 1 + length ys"
    by (rule argmin_loop_bound) simp
  with h Cons show ?thesis by (auto split: if_splits)
qed

lemma np_argmin_total: "xs \<noteq> [] \<Longrightarrow> \<exists>i. np_argmin xs = Inr i"
  by (cases xs) simp_all

lemma np_argmin_first_nan: "np_argmin (NaN # xs) = Inr 0"
  by simp

lemma gam_upt: "gam = map (\<lambda>i. Fin (2 / 10 + real i * (1 / 1000))) [0..<9801]"
proof -
  have "\<lceil>(10001 / 1000 - 2 / 10) / (1 / 1000) :: real\<rceil> = 9801"
    by simp
  then show ?thesis by (simp add: gam_def np_arange_def)
qed

lemma length_gam: "length gam = 9801"
  by (simp add: gam_upt)

lemma length_r_gam: "length r_gam = 9801"
  by (simp add: r_gam_def gam_reciprocal_def length_gam)

lemma gam_nth: "i < 9801 \<Longrightarrow> gam ! i = Fin (2 / 10 + real i * (1 / 1000))"
  by (simp add: gam_upt)

lemma set_gam: "set gam = (\<lambda>k. Fin (real k / 1000)) ` {200..10000}"
proof -
  have "set gam = (\<lambda>i. Fin (2 / 10 + real i * (1 / 1000))) ` {0..<9801}"
    by (simp add: gam_upt)
  also have "\<dots> = (\<lambda>i. Fin (real (i + 200) / 1000)) ` {0..<9801}"
    by (rule image_cong) (simp_all add: field_simps)
  also have "\<dots> = (\<lambda>k. Fin (real k / 1000)) ` ((\<lambda>i. i + 200) ` {0..<9801})"
    by (simp only: image_image)
  also have "(\<lambda>i. i + 200) ` {0..<9801} = {200..10000::nat}"
  proof (rule set_eqI)
    fix k :: nat
    show "k \<in> (\<lambda>i. i + 200) ` {0..<9801} \<longleftrightarrow> k \<in> {200..10000}"
    proof
      assume "k \<in> (\<lambda>i. i + 200) ` {0..<9801}"
      then show "k \<in> {200..10000}" by auto
    next
      assume "k \<in> {200..10000}"
      then have "k - 200 \<in> {0..<9801}" and "k = (k - 200) + 200" by auto
      then show "k \<in> (\<lambda>i. i + 200) ` {0..<9801}" by (rule_tac rev_image_eqI)
    qed
  qed
  finally show ?thesis .
qed

lemma estimate_aggd_param_returns:
  "\<exists>i < 9801. estimate_aggd_param block =
      Inr (gam ! i, fmul (left_std (concat block)) (beta_scale (gam ! i)),
                    fmul (right_std (concat block)) (beta_scale (gam ! i)))"
proof -
  let ?errs = "map (\<lambda>r. fsquare (fsub r (rhatnorm (concat block)))) r_gam"
  have "?errs \<noteq> []" using length_r_gam by auto
  then obtain i where i: "np_argmin ?errs = Inr i" using np_argmin_total by blast
  then have "i < length ?errs" by (rule np_argmin_bound)
  then have b: "i < 9801" by (simp add: length_r_gam)
  then have "np_index gam i = Inr (gam ! i)" by (simp add: np_index_def length_gam)
  with i b show ?thesis by (auto simp: estimate_aggd_param_def Let_def)
qed

lemma nonneg_or_nan_beta: "nonneg_or_nan (fmul (left_std b) (beta_scale a))"
  "nonneg_or_nan (fmul (right_std b) (beta_scale a))"
  by (simp_all add: left_std_def right_std_def beta_scale_def nonneg_or_nan_fmul nonneg_or_nan_fsqrt)

subsection \<open>Values of the Gamma function at positive integers\<close>

lemma gauss_prod_Suc:
  "(\<Prod>k\<le>n. real (Suc m) + real k) * real m = (\<Prod>k\<le>n. real m + real k) * (real m + real n + 1)"
proof (induction n)
  case 0
  show ?case by simp
next
  case (Suc n)
  have "(\<Prod>k\<le>Suc n. real (Suc m) + real k) * real m
        = ((\<Prod>k\<le>n. real (Suc m) + real k) * real m) * (real (Suc m) + real (Suc n))"
    by (simp add: mult_ac)
  also have "\<dots> = ((\<Prod>k\<le>n. real m + real k) * (real m + real n + 1)) * (real (Suc m) + real (Suc n))"
    by (simp only: Suc.IH)
  also have "\<dots> = (\<Prod>k\<le>Suc n. real m + real k) * (real m + real (Suc n) + 1)"
    by (simp add: mult_ac add_ac)
  finally show ?case .
qed

lemma gauss_prod_pos: "0 < m \<Longrightarrow> 0 < (\<Prod>k\<le>n. real m + real k)"
  by (rule prod_pos) simp

lemma ratio_tendsto_1: "(\<lambda>n. real n / (real m + real n + 1)) \<longlonglongrightarrow> 1"
proof -
  have "(\<lambda>n. 1 - (real m + 1) * (1 / (real m + real n + 1))) \<longlonglongrightarrow> 1 - (real m + 1) * 0"
  proof (intro tendsto_intros)
    have "(\<lambda>n. inverse (real (Suc (n + m)))) \<longlonglongrightarrow> 0"
      by (rule LIMSEQ_ignore_initial_segment [OF LIMSEQ_inverse_real_of_nat])
    then show "(\<lambda>n. 1 / (real m + real n + 1)) \<longlonglongrightarrow> 0"
      by (simp add: field_simps inverse_eq_divide add_ac)
  qed
  moreover have "(\<lambda>n. 1 - (real m + 1) * (1 / (real m + real n + 1))) = (\<lambda>n. real n / (real m + real n + 1))"
    by (rule ext) (simp add: field_simps)
  ultimately show ?thesis by simp
qed

lemma gauss_seq_nat:
  "(\<lambda>n. real n powr real (Suc m) * fact n / (\<Prod>k\<le>n. real (Suc m) + real k)) \<longlonglongrightarrow> fact m"
proof (induction m)
  case 0
  have "(\<lambda>n. real n powr real (Suc 0) * fact n / (\<Prod>k\<le>n. real (Suc 0) + real k))
        = (\<lambda>n. real n / (real 0 + real n + 1))"
  proof (rule ext)
    fix n
    have "(\<Prod>k\<le>n. real (Suc 0) + real k) = fact (Suc n)"
      by (induction n) (simp_all add: algebra_simps)
    then have "real n powr real (Suc 0) * fact n / (\<Prod>k\<le>n. real (Suc 0) + real k)
               = real n * fact n / ((real n + 1) * fact n)"
      by (simp add: mult_ac add_ac)
    also have "\<dots> = real n / (real n + 1)"
      by simp
    finally show "real n powr real (Suc 0) * fact n / (\<Prod>k\<le>n. real (Suc 0) + real k) = real n / (real 0 + real n + 1)"
      by simp
  qed
  then show ?case using ratio_tendsto_1 [of 0] by simp
next
  case (Suc m)
  let ?a = "\<lambda>m n. real n powr real (Suc m) * fact n / (\<Prod>k\<le>n. real (Suc m) + real k)"
  have step: "?a (Suc m) n = ?a m n * (real (Suc m) * (real n / (real (Suc m) + real n + 1)))" for n
  proof -
    have p: "(\<Prod>k\<le>n. real (Suc (Suc m)) + real k) * real (Suc m)
             = (\<Prod>k\<le>n. real (Suc m) + real k) * (real (Suc m) + real n + 1)"
      by (rule gauss_prod_Suc)
    have pos1: "0 < (\<Prod>k\<le>n. real (Suc (Suc m)) + real k)" by (rule gauss_prod_pos) simp
    have pos2: "0 < (\<Prod>k\<le>n. real (Suc m) + real k)" by (rule gauss_prod_pos) simp
    have pw: "real n powr real (Suc (Suc m)) = real n powr real (Suc m) * real n"
    proof (cases "n = 0")
      case True
      then show ?thesis by simp
    next
      case False
      then have "0 < real n" by simp
      then show ?thesis by (simp only: powr_realpow power_Suc mult.commute)
    qed
    define P2 where "P2 = (\<Prod>k\<le>n. real (Suc (Suc m)) + real k)"
    define P1 where "P1 = (\<Prod>k\<le>n. real (Suc m) + real k)"
    define X where "X = real n powr real (Suc m)"
    define c where "c = real (Suc m)"
    define d where "d = real (Suc m) + real n + 1"
    have c: "0 < c" and d: "0 < d" by (simp_all add: c_def d_def)
    have e: "P2 * c = P1 * d" and P1: "0 < P1" and P2: "0 < P2"
      using p pos1 pos2 by (simp_all add: P1_def P2_def c_def d_def)
    have "X * real n * fact n / P2 = X * real n * fact n * c / (P2 * c)"
      using c by simp
    also have "\<dots> = X * real n * fact n * c / (P1 * d)"
      by (simp only: e)
    also have "\<dots> = X * fact n / P1 * (c * (real n / d))"
      by simp
    finally have "X * real n * fact n / P2 = X * fact n / P1 * (c * (real n / d))" .
    then show ?thesis
      unfolding P1_def P2_def X_def c_def d_def pw by simp
  qed
  have "(\<lambda>n. ?a m n * (real (Suc m) * (real n / (real (Suc m) + real n + 1))))
        \<longlonglongrightarrow> fact m * (real (Suc m) * 1)"
    by (intro tendsto_intros Suc.IH ratio_tendsto_1)
  then have "(\<lambda>n. ?a (Suc m) n) \<longlonglongrightarrow> fact m * (real (Suc m) * 1)"
    by (simp only: step)
  moreover have "fact m * (real (Suc m) * 1) = (fact (Suc m) :: real)"
    by simp
  ultimately show ?case by (simp only:)
qed

lemma Gamma_real_nat: "Gamma_real (real (Suc m)) = fact m"
  unfolding Gamma_real_def by (rule limI) (rule gauss_seq_nat)

lemma Gamma_real_5: "Gamma_real 5 = 24"
  using Gamma_real_nat [of 4] by (simp add: fact_numeral)

lemma Gamma_real_15: "Gamma_real 15 = 87178291200"
  using Gamma_real_nat [of 14] by (simp add: fact_numeral)

subsection \<open>The AGGD estimator\<close>

text \<open>
  Claim C6. For every block, \<open>estimate_aggd_param\<close> returns (it has no failing
  path: the grid is not empty and the index found lies inside it); \<open>alpha\<close> is one
  of the 9801 grid values \<open>0.200, 0.201, \<dots>, 10.000\<close>; \<open>beta_l\<close> and
  \<open>beta_r\<close> are each non-negative or NaN.
\<close>

theorem estimate_aggd_param_in_grid:
  "length gam = 9801
   \<and> set gam = (\<lambda>k. Fin (real k / 1000)) ` {200..10000}
   \<and> (\<exists>alpha beta_l beta_r.
         estimate_aggd_param block = Inr (alpha, beta_l, beta_r)
         \<and> alpha \<in> set gam \<and> nonneg_or_nan beta_l \<and> nonneg_or_nan beta_r)"
proof -
  obtain i where i: "i < 9801" and
    e: "estimate_aggd_param block =
      Inr (gam ! i, fmul (left_std (concat block)) (beta_scale (gam ! i)),
                    fmul (right_std (concat block)) (beta_scale (gam ! i)))"
    using estimate_aggd_param_returns by blast
  have "gam ! i \<in> set gam" using i by (simp add: length_gam)
  with e have "\<exists>alpha beta_l beta_r.
         estimate_aggd_param block = Inr (alpha, beta_l, beta_r)
         \<and> alpha \<in> set gam \<and> nonneg_or_nan beta_l \<and> nonneg_or_nan beta_r"
    using nonneg_or_nan_beta by blast
  then show ?thesis using length_gam set_gam by blast
qed

lemma np_mean_Nil [simp]: "np_mean [] = NaN"
  by (simp add: np_mean_def fsum_def inf_of_def)

lemma left_std_no_negative:
  "filter (\<lambda>x. flt x (Fin 0)) b = [] \<Longrightarrow> left_std b = NaN"
  by (simp add: left_std_def)

lemma right_std_no_positive:
  "filter (\<lambda>x. flt (Fin 0) x) b = [] \<Longrightarrow> right_std b = NaN"
  by (simp add: right_std_def)

lemma fcube_NaN [simp]: "fcube NaN = NaN"
  by (simp add: fcube_def)

lemma rhatnorm_NaN:
  "left_std b = NaN \<or> right_std b = NaN \<Longrightarrow> rhatnorm b = NaN"
  by (auto simp: rhatnorm_def Let_def)

lemma r_gam_not_Nil: "r_gam \<noteq> []"
  using length_r_gam by auto

lemma np_argmin_all_NaN: "xs \<noteq> [] \<Longrightarrow> np_argmin (map (\<lambda>r. NaN) xs) = Inr 0"
  by (cases xs) simp_all

lemma gam_first: "gam ! 0 = Fin (1 / 5)"
  using gam_nth [of 0] by simp

lemma estimate_aggd_param_degenerate:
  assumes "left_std (concat block) = NaN \<or> right_std (concat block) = NaN"
  shows "estimate_aggd_param block =
           Inr (Fin (1 / 5),
                fmul (left_std (concat block)) (beta_scale (Fin (1 / 5))),
                fmul (right_std (concat block)) (beta_scale (Fin (1 / 5))))"
proof -
  have r: "rhatnorm (concat block) = NaN" using assms by (rule rhatnorm_NaN)
  have "np_index gam 0 = Inr (Fin (1 / 5))"
    by (simp add: np_index_def length_gam gam_first)
  then show ?thesis
    by (simp add: estimate_aggd_param_def Let_def r np_argmin_all_NaN r_gam_not_Nil)
qed

lemma gamma_5: "gamma (Fin 5) = Fin 24"
  by (simp add: Gamma_real_5)

lemma gamma_15: "gamma (Fin 15) = Fin 87178291200"
  by (simp add: Gamma_real_15)

lemma beta_scale_first: "beta_scale (Fin (1 / 5)) = Fin (sqrt (1 / 3632428800))"
proof -
  have "(24::real) / 87178291200 = 1 / 3632428800" by simp
  then show ?thesis by (simp add: beta_scale_def Gamma_real_5 Gamma_real_15)
qed

text \<open>
  Claim C10 (amended). For every block with no strictly negative element or no
  strictly positive element, every squared error is NaN, \<open>argmin\<close> selects index 0
  and \<open>alpha\<close> is the first grid value 0.2 (never NaN). The scale of each side is
  the standard deviation of that side times \<open>sqrt(\<Gamma>(5)/\<Gamma>(15))\<close>: \<open>beta_l\<close> is NaN
  when the block has no negative element, \<open>beta_r\<close> is NaN when it has no positive
  element (both are NaN for an all-zero block).
\<close>

theorem estimate_aggd_param_one_sided:
  assumes "filter (\<lambda>x. flt x (Fin 0)) (concat block) = []
           \<or> filter (\<lambda>x. flt (Fin 0) x) (concat block) = []"
  shows "\<exists>beta_l beta_r.
           estimate_aggd_param block = Inr (Fin (1 / 5), beta_l, beta_r)
           \<and> beta_l = fmul (left_std (concat block)) (Fin (sqrt (1 / 3632428800)))
           \<and> beta_r = fmul (right_std (concat block)) (Fin (sqrt (1 / 3632428800)))
           \<and> (filter (\<lambda>x. flt x (Fin 0)) (concat block) = [] \<longrightarrow> beta_l = NaN)
           \<and> (filter (\<lambda>x. flt (Fin 0) x) (concat block) = [] \<longrightarrow> beta_r = NaN)"
proof -
  have "left_std (concat block) = NaN \<or> right_std (concat block) = NaN"
    using assms left_std_no_negative right_std_no_positive by blast
  then have "estimate_aggd_param block =
           Inr (Fin (1 / 5),
                fmul (left_std (concat block)) (Fin (sqrt (1 / 3632428800))),
                fmul (right_std (concat block)) (Fin (sqrt (1 / 3632428800))))"
    using estimate_aggd_param_degenerate by (simp add: beta_scale_first)
  then show ?thesis
    by (auto simp: left_std_no_negative right_std_no_positive)
qed

text \<open>
  The all-zero block: \<open>alpha = 0.2\<close> and both scales are NaN.
\<close>

theorem estimate_aggd_param_one_sided_witness:
  "estimate_aggd_param [[Fin 0]] = Inr (Fin (1 / 5), NaN, NaN)"
  using estimate_aggd_param_one_sided [of "[[Fin 0]]"] by auto

text \<open>
  Claim C10 as stated fails on the block \<open>[[1.0]]\<close>: it has no negative element,
  and \<open>beta_r\<close> is the number \<open>sqrt(24 / 14!)\<close>, not NaN.
\<close>

theorem estimate_aggd_param_positive_block:
  "filter (\<lambda>x. flt x (Fin 0)) (concat [[Fin 1]]) = []
   \<and> estimate_aggd_param [[Fin 1]] = Inr (Fin (1 / 5), NaN, Fin (sqrt (1 / 3632428800)))"
proof -
  have l: "left_std (concat [[Fin 1]]) = NaN"
    by (simp add: left_std_def)
  have r: "right_std (concat [[Fin 1]]) = Fin 1"
    by (simp add: right_std_def np_mean_def fsum_def fsquare_def)
  show ?thesis
    using estimate_aggd_param_degenerate [of "[[Fin 1]]"] l r
    by (simp add: beta_scale_first)
qed

subsection \<open>Circular shifts and the feature vector\<close>

lemma np_roll1_length [simp]: "length (np_roll1 s xs) = length xs"
  by (auto simp: np_roll1_def Let_def)

lemma nat_mod_less: "0 < n \<Longrightarrow> nat (x mod int n) < n"
proof -
  assume "0 < n"
  then have "0 < int n" by simp
  then have "0 \<le> x mod int n" and "x mod int n < int n"
    by (rule pos_mod_sign, rule pos_mod_bound)
  then show ?thesis by (simp add: nat_less_iff)
qed

lemma np_roll1_nth:
  assumes "i < length xs"
  shows "np_roll1 s xs ! i = xs ! nat ((int i - s) mod int (length xs))"
proof -
  define n where "n = length xs"
  define k where "k = nat (s mod int n)"
  have n: "0 < n" and i: "i < n" using assms by (auto simp: n_def)
  have k: "k < n" unfolding k_def using n by (rule nat_mod_less)
  have "0 \<le> s mod int n" using n by simp
  then have ik: "int k = s mod int n" by (simp add: k_def)
  have m: "(int i - s) mod int n = (int i - int k) mod int n"
    unfolding ik by (simp add: mod_diff_right_eq)
  have r: "np_roll1 s xs = drop (n - k) xs @ take (n - k) xs"
    using n by (simp add: np_roll1_def Let_def n_def k_def)
  show ?thesis
  proof (cases "i < k")
    case True
    have "(int i - int k) mod int n = (int i - int k + int n) mod int n"
      by simp
    also have "int i - int k + int n = int (n - k + i)"
      using k by simp
    also have "int (n - k + i) mod int n = int (n - k + i)"
      using True k by (intro mod_pos_pos_trivial) simp_all
    finally have "nat ((int i - s) mod int n) = n - k + i"
      by (simp only: m nat_int)
    moreover have "np_roll1 s xs ! i = xs ! (n - k + i)"
      using True k by (simp add: r nth_append n_def)
    ultimately show ?thesis by (simp add: n_def)
  next
    case False
    have "int i - int k = int (i - k)"
      using False by simp
    moreover have "int (i - k) mod int n = int (i - k)"
      using i by (intro mod_pos_pos_trivial) simp_all
    ultimately have "nat ((int i - s) mod int n) = i - k"
      by (simp only: m nat_int)
    moreover have "np_roll1 s xs ! i = xs ! (i - k)"
      using False k i by (simp add: r nth_append n_def)
    ultimately show ?thesis by (simp add: n_def)
  qed
qed

lemma np_roll_nth:
  assumes "\<forall>row \<in> set block. length row = w" "i < length block" "j < w"
  shows "np_roll block s ! i ! j
         = block ! nat ((int i - fst s) mod int (length block))
                 ! nat ((int j - snd s) mod int w)"
proof -
  let ?i = "nat ((int i - fst s) mod int (length block))"
  have "0 < length block" using assms(2) by auto
  then have i': "?i < length block"
    by (rule nat_mod_less)
  then have w: "length (block ! ?i) = w" using assms(1) by simp
  have "np_roll block s ! i = map (np_roll1 (snd s)) block ! ?i"
    using assms(2) by (simp add: np_roll_def np_roll1_nth)
  also have "\<dots> = np_roll1 (snd s) (block ! ?i)"
    using i' by simp
  finally have "np_roll block s ! i ! j = np_roll1 (snd s) (block ! ?i) ! j" by simp
  also have "\<dots> = block ! ?i ! nat ((int j - snd s) mod int w)"
    using assms(3) w by (simp add: np_roll1_nth)
  finally show ?thesis .
qed

lemma feature_loop_shifts:
  assumes "estimate_aggd_param (mat_mul block (np_roll block (0, 1))) = Inr (a1, l1, r1)"
    and "estimate_aggd_param (mat_mul block (np_roll block (1, 0))) = Inr (a2, l2, r2)"
    and "estimate_aggd_param (mat_mul block (np_roll block (1, 1))) = Inr (a3, l3, r3)"
    and "estimate_aggd_param (mat_mul block (np_roll block (1, - 1))) = Inr (a4, l4, r4)"
  shows "feature_loop block shifts feat =
     Inr (feat @ [a1, shift_mean a1 l1 r1, l1, r1, a2, shift_mean a2 l2 r2, l2, r2,
                  a3, shift_mean a3 l3 r3, l3, r3, a4, shift_mean a4 l4 r4, l4, r4])"
  using assms by (simp add: shifts_def)

lemma estimate_aggd_param_Inr: "\<exists>a l r. estimate_aggd_param b = Inr (a, l, r)"
  using estimate_aggd_param_returns [of b] by blast

lemma np_roll_length [simp]: "length (np_roll block s) = length block"
  by (simp add: np_roll_def)

lemma np_roll_row_length:
  assumes "\<forall>row \<in> set block. length row = w" "i < length block"
  shows "length (np_roll block s ! i) = w"
proof -
  have "np_roll block s ! i \<in> set (np_roll block s)"
    using assms(2) by simp
  moreover have "set (np_roll block s) \<subseteq> set (map (np_roll1 (snd s)) block)"
    by (auto simp: np_roll_def np_roll1_def Let_def dest: in_set_dropD in_set_takeD)
  ultimately obtain row where "row \<in> set block" "np_roll block s ! i = np_roll1 (snd s) row"
    by auto
  then show ?thesis using assms(1) by simp
qed

lemma mat_mul_nth:
  assumes "i < length a" "i < length b" "j < length (a ! i)" "j < length (b ! i)"
  shows "mat_mul a b ! i ! j = fmul (a ! i ! j) (b ! i ! j)"
  using assms by (simp add: mat_mul_def)

lemma compute_feature_value:
  assumes "estimate_aggd_param block = Inr (a0, l0, r0)"
    and "estimate_aggd_param (mat_mul block (np_roll block (0, 1))) = Inr (a1, l1, r1)"
    and "estimate_aggd_param (mat_mul block (np_roll block (1, 0))) = Inr (a2, l2, r2)"
    and "estimate_aggd_param (mat_mul block (np_roll block (1, 1))) = Inr (a3, l3, r3)"
    and "estimate_aggd_param (mat_mul block (np_roll block (1, - 1))) = Inr (a4, l4, r4)"
  shows "compute_feature block =
     Inr [a0, fdiv (fadd l0 r0) (Fin 2),
          a1, shift_mean a1 l1 r1, l1, r1, a2, shift_mean a2 l2 r2, l2, r2,
          a3, shift_mean a3 l3 r3, l3, r3, a4, shift_mean a4 l4 r4, l4, r4]"
  using assms by (simp add: compute_feature_def feature_loop_shifts)

lemma compute_feature_returns:
  "\<exists>feat. compute_feature block = Inr feat \<and> length feat = 18"
proof -
  obtain a0 l0 r0 where 0: "estimate_aggd_param block = Inr (a0, l0, r0)"
    using estimate_aggd_param_Inr by blast
  obtain a1 l1 r1 where 1: "estimate_aggd_param (mat_mul block (np_roll block (0, 1))) = Inr (a1, l1, r1)"
    using estimate_aggd_param_Inr by blast
  obtain a2 l2 r2 where 2: "estimate_aggd_param (mat_mul block (np_roll block (1, 0))) = Inr (a2, l2, r2)"
    using estimate_aggd_param_Inr by blast
  obtain a3 l3 r3 where 3: "estimate_aggd_param (mat_mul block (np_roll block (1, 1))) = Inr (a3, l3, r3)"
    using estimate_aggd_param_Inr by blast
  obtain a4 l4 r4 where 4: "estimate_aggd_param (mat_mul block (np_roll block (1, - 1))) = Inr (a4, l4, r4)"
    using estimate_aggd_param_Inr by blast
  show ?thesis
    by (simp add: compute_feature_value [OF 0 1 2 3 4])
qed

text \<open>
  Claim C7. For every 2-D block, \<open>compute_feature\<close> returns 18 values: the block's own
  \<open>alpha\<close> and \<open>(beta_l + beta_r) / 2\<close>, then, for the shifts \<open>(0,1)\<close>, \<open>(1,0)\<close>,
  \<open>(1,1)\<close>, \<open>(1,-1)\<close> in this order, the values \<open>alpha\<close>,
  \<open>(beta_r - beta_l) * (\<Gamma>(2/alpha) / \<Gamma>(1/alpha))\<close>, \<open>beta_l\<close>, \<open>beta_r\<close> estimated
  on the element-wise product of the block with its shifted copy. The shift is
  circular along both axes: entry \<open>(i, j)\<close> of the shifted copy is entry
  \<open>((i - s0) mod h, (j - s1) mod w)\<close> of the block.
\<close>

theorem compute_feature_order:
  "(\<exists>a0 l0 r0 a1 l1 r1 a2 l2 r2 a3 l3 r3 a4 l4 r4.
      estimate_aggd_param block = Inr (a0, l0, r0)
    \<and> estimate_aggd_param (mat_mul block (np_roll block (0, 1))) = Inr (a1, l1, r1)
    \<and> estimate_aggd_param (mat_mul block (np_roll block (1, 0))) = Inr (a2, l2, r2)
    \<and> estimate_aggd_param (mat_mul block (np_roll block (1, 1))) = Inr (a3, l3, r3)
    \<and> estimate_aggd_param (mat_mul block (np_roll block (1, - 1))) = Inr (a4, l4, r4)
    \<and> compute_feature block =
        Inr [a0, fdiv (fadd l0 r0) (Fin 2),
             a1, fmul (fsub r1 l1) (fdiv (gamma (fdiv (Fin 2) a1)) (gamma (fdiv (Fin 1) a1))), l1, r1,
             a2, fmul (fsub r2 l2) (fdiv (gamma (fdiv (Fin 2) a2)) (gamma (fdiv (Fin 1) a2))), l2, r2,
             a3, fmul (fsub r3 l3) (fdiv (gamma (fdiv (Fin 2) a3)) (gamma (fdiv (Fin 1) a3))), l3, r3,
             a4, fmul (fsub r4 l4) (fdiv (gamma (fdiv (Fin 2) a4)) (gamma (fdiv (Fin 1) a4))), l4, r4])
   \<and> (\<exists>feat. compute_feature block = Inr feat \<and> length feat = 18)
   \<and> (\<forall>s w i j. (\<forall>row \<in> set block. length row = w) \<and> i < length block \<and> j < w \<longrightarrow>
         np_roll block s ! i ! j
           = block ! nat ((int i - fst s) mod int (length block))
                   ! nat ((int j - snd s) mod int w)
       \<and> mat_mul block (np_roll block s) ! i ! j
           = fmul (block ! i ! j) (np_roll block s ! i ! j))"
proof (intro conjI)
  obtain a0 l0 r0 where 0: "estimate_aggd_param block = Inr (a0, l0, r0)"
    using estimate_aggd_param_Inr by blast
  obtain a1 l1 r1 where 1: "estimate_aggd_param (mat_mul block (np_roll block (0, 1))) = Inr (a1, l1, r1)"
    using estimate_aggd_param_Inr by blast
  obtain a2 l2 r2 where 2: "estimate_aggd_param (mat_mul block (np_roll block (1, 0))) = Inr (a2, l2, r2)"
    using estimate_aggd_param_Inr by blast
  obtain a3 l3 r3 where 3: "estimate_aggd_param (mat_mul block (np_roll block (1, 1))) = Inr (a3, l3, r3)"
    using estimate_aggd_param_Inr by blast
  obtain a4 l4 r4 where 4: "estimate_aggd_param (mat_mul block (np_roll block (1, - 1))) = Inr (a4, l4, r4)"
    using estimate_aggd_param_Inr by blast
  show "\<exists>a0 l0 r0 a1 l1 r1 a2 l2 r2 a3 l3 r3 a4 l4 r4.
      estimate_aggd_param block = Inr (a0, l0, r0)
    \<and> estimate_aggd_param (mat_mul block (np_roll block (0, 1))) = Inr (a1, l1, r1)
    \<and> estimate_aggd_param (mat_mul block (np_roll block (1, 0))) = Inr (a2, l2, r2)
    \<and> estimate_aggd_param (mat_mul block (np_roll block (1, 1))) = Inr (a3, l3, r3)
    \<and> estimate_aggd_param (mat_mul block (np_roll block (1, - 1))) = Inr (a4, l4, r4)
    \<and> compute_feature block =
        Inr [a0, fdiv (fadd l0 r0) (Fin 2),
             a1, fmul (fsub r1 l1) (fdiv (gamma (fdiv (Fin 2) a1)) (gamma (fdiv (Fin 1) a1))), l1, r1,
             a2, fmul (fsub r2 l2) (fdiv (gamma (fdiv (Fin 2) a2)) (gamma (fdiv (Fin 1) a2))), l2, r2,
             a3, fmul (fsub r3 l3) (fdiv (gamma (fdiv (Fin 2) a3)) (gamma (fdiv (Fin 1) a3))), l3, r3,
             a4, fmul (fsub r4 l4) (fdiv (gamma (fdiv (Fin 2) a4)) (gamma (fdiv (Fin 1) a4))), l4, r4]"
    using compute_feature_value [OF 0 1 2 3 4] 0 1 2 3 4
    unfolding shift_mean_def by blast
next
  show "\<exists>feat. compute_feature block = Inr feat \<and> length feat = 18"
    by (rule compute_feature_returns)
next
  show "\<forall>s w i j. (\<forall>row \<in> set block. length row = w) \<and> i < length block \<and> j < w \<longrightarrow>
         np_roll block s ! i ! j
           = block ! nat ((int i - fst s) mod int (length block))
                   ! nat ((int j - snd s) mod int w)
       \<and> mat_mul block (np_roll block s) ! i ! j
           = fmul (block ! i ! j) (np_roll block s ! i ! j)"
  proof (intro allI impI, elim conjE)
    fix s w i j
    assume h: "\<forall>row \<in> set block. length row = w" "i < length block" "j < w"
    have a: "np_roll block s ! i ! j
           = block ! nat ((int i - fst s) mod int (length block))
                   ! nat ((int j - snd s) mod int w)"
      using h by (rule np_roll_nth)
    have "length (block ! i) = w" using h by simp
    moreover have "length (np_roll block s ! i) = w" using h(1,2) by (rule np_roll_row_length)
    ultimately have b: "mat_mul block (np_roll block s) ! i ! j
           = fmul (block ! i ! j) (np_roll block s ! i ! j)"
      using h by (simp add: mat_mul_nth)
    show "np_roll block s ! i ! j
           = block ! nat ((int i - fst s) mod int (length block))
                   ! nat ((int j - snd s) mod int w)
       \<and> mat_mul block (np_roll block s) ! i ! j
           = fmul (block ! i ! j) (np_roll block s ! i ! j)"
      using a b by (rule conjI)
  qed
qed

lemma estimate_aggd_param_zero22:
  "estimate_aggd_param [[Fin 0, Fin 0], [Fin 0, Fin 0]] = Inr (Fin (1 / 5), NaN, NaN)"
proof -
  have "left_std (concat [[Fin 0, Fin 0], [Fin 0, Fin 0]]) = NaN"
    by (simp add: left_std_def)
  then show ?thesis
    using estimate_aggd_param_degenerate [of "[[Fin 0, Fin 0], [Fin 0, Fin 0]]"]
    by (simp add: right_std_def)
qed

lemma roll_zero22:
  "mat_mul [[Fin 0, Fin 0], [Fin 0, Fin 0]] (np_roll [[Fin 0, Fin 0], [Fin 0, Fin 0]] (a, b))
   = [[Fin 0, Fin 0], [Fin 0, Fin 0]]"
proof -
  have "np_roll1 s [Fin 0, Fin 0] = [Fin 0, Fin 0]" for s
  proof -
    have "nat (s mod 2) = 0 \<or> nat (s mod 2) = 1" by (auto simp: nat_eq_iff)
    then show ?thesis by (auto simp: np_roll1_def Let_def)
  qed
  moreover have "np_roll1 s [[Fin 0, Fin 0], [Fin 0, Fin 0]] = [[Fin 0, Fin 0], [Fin 0, Fin 0]]" for s
  proof -
    have "nat (s mod 2) = 0 \<or> nat (s mod 2) = 1" by (auto simp: nat_eq_iff)
    then show ?thesis by (auto simp: np_roll1_def Let_def)
  qed
  ultimately show ?thesis by (simp add: np_roll_def mat_mul_def)
qed

text \<open>
  The 2x2 zero block gives \<open>alpha = 0.2\<close> and NaN elsewhere; entry \<open>(0,0)\<close> of
  a 2x2 block shifted by \<open>(1,-1)\<close> is its entry \<open>(1,1)\<close>.
\<close>

theorem compute_feature_order_witness:
  "compute_feature [[Fin 0, Fin 0], [Fin 0, Fin 0]] =
     Inr [Fin (1 / 5), NaN, Fin (1 / 5), NaN, NaN, NaN, Fin (1 / 5), NaN, NaN, NaN,
          Fin (1 / 5), NaN, NaN, NaN, Fin (1 / 5), NaN, NaN, NaN]
   \<and> np_roll [[Fin 0, Fin 1], [Fin 2, Fin 3]] (1, - 1) ! 0 ! 0 = Fin 3"
proof -
  let ?B = "[[Fin 0, Fin 1], [Fin 2, Fin 3]]"
  let ?Z = "[[Fin 0, Fin 0], [Fin 0, Fin 0]]"
  have a: "(\<forall>row \<in> set ?B. length row = 2) \<and> (0::nat) < length ?B \<and> (0::nat) < 2"
    by simp
  have r: "\<forall>s w i j. (\<forall>row \<in> set ?B. length row = w) \<and> i < length ?B \<and> j < w \<longrightarrow>
         np_roll ?B s ! i ! j
           = ?B ! nat ((int i - fst s) mod int (length ?B)) ! nat ((int j - snd s) mod int w)
       \<and> mat_mul ?B (np_roll ?B s) ! i ! j = fmul (?B ! i ! j) (np_roll ?B s ! i ! j)"
    using compute_feature_order [of ?B] by (elim conjE)
  have "np_roll ?B (1, - 1) ! 0 ! 0
        = ?B ! nat ((int 0 - fst (1::int, - 1::int)) mod int (length ?B))
             ! nat ((int 0 - snd (1::int, - 1::int)) mod int 2)"
    using r a by blast
  also have "\<dots> = Fin 3"
    by simp
  finally have 1: "np_roll ?B (1, - 1) ! 0 ! 0 = Fin 3" .
  have 2: "compute_feature ?Z =
     Inr [Fin (1 / 5), NaN, Fin (1 / 5), NaN, NaN, NaN, Fin (1 / 5), NaN, NaN, NaN,
          Fin (1 / 5), NaN, NaN, NaN, Fin (1 / 5), NaN, NaN, NaN]"
    using compute_feature_order [of ?Z]
    by (auto simp: roll_zero22 estimate_aggd_param_zero22 fsub_def inf_of_def)
  show ?thesis using 1 2 by simp
qed

subsection \<open>The block loop\<close>

lemma rows_loop_result:
  "rows_loop f hs feat = Inr feats \<Longrightarrow>
     \<exists>vs. feats = feat @ vs \<and> length vs = length hs
          \<and> (\<forall>k < length hs. f (hs ! k) = Inr (vs ! k))"
proof (induction hs arbitrary: feat)
  case Nil
  then show ?case by simp
next
  case (Cons h hs)
  from Cons.prems obtain v where v: "f h = Inr v"
    and r: "rows_loop f hs (feat @ [v]) = Inr feats"
    by (cases "f h") auto
  from Cons.IH [OF r] obtain vs where vs: "feats = (feat @ [v]) @ vs" "length vs = length hs"
    "\<forall>k < length hs. f (hs ! k) = Inr (vs ! k)" by blast
  have "\<forall>k < length (h # hs). f ((h # hs) ! k) = Inr ((v # vs) ! k)"
  proof (intro allI impI)
    fix k assume "k < length (h # hs)"
    then show "f ((h # hs) ! k) = Inr ((v # vs) ! k)"
      using v vs(3) by (cases k) auto
  qed
  then show ?case using vs(1,2) by (intro exI [of _ "v # vs"]) simp
qed

lemma cols_loop_result:
  "cols_loop g ws hs feat = Inr feats \<Longrightarrow>
     \<exists>vs. feats = feat @ vs \<and> length vs = length ws * length hs
          \<and> (\<forall>k < length ws * length hs.
                g (ws ! (k div length hs)) (hs ! (k mod length hs)) = Inr (vs ! k))"
proof (induction ws arbitrary: feat)
  case Nil
  then show ?case by simp
next
  case (Cons w ws)
  let ?n = "length hs"
  from Cons.prems obtain feat1 where f1: "rows_loop (g w) hs feat = Inr feat1"
    and r: "cols_loop g ws hs feat1 = Inr feats"
    by (cases "rows_loop (g w) hs feat") auto
  from rows_loop_result [OF f1] obtain v1 where v1: "feat1 = feat @ v1" "length v1 = ?n"
    "\<forall>k < ?n. g w (hs ! k) = Inr (v1 ! k)" by blast
  from Cons.IH [OF r] obtain v2 where v2: "feats = feat1 @ v2" "length v2 = length ws * ?n"
    "\<forall>k < length ws * ?n. g (ws ! (k div ?n)) (hs ! (k mod ?n)) = Inr (v2 ! k)" by blast
  have "\<forall>k < length (w # ws) * ?n.
          g ((w # ws) ! (k div ?n)) (hs ! (k mod ?n)) = Inr ((v1 @ v2) ! k)"
  proof (intro allI impI)
    fix k assume k: "k < length (w # ws) * ?n"
    show "g ((w # ws) ! (k div ?n)) (hs ! (k mod ?n)) = Inr ((v1 @ v2) ! k)"
    proof (cases "k < ?n")
      case True
      then show ?thesis using v1 by (simp add: nth_append)
    next
      case False
      define j where "j = k - ?n"
      have kj: "k = j + ?n" using False by (simp add: j_def)
      have n: "0 < ?n" using k by (cases "?n = 0") auto
      have j: "j < length ws * ?n" using k kj by simp
      have "k div ?n = Suc (j div ?n)" "k mod ?n = j mod ?n"
        using n by (simp_all add: kj)
      moreover have "(v1 @ v2) ! k = v2 ! j"
        using False v1(2) by (simp add: nth_append j_def)
      ultimately show ?thesis using v2(3) j by simp
    qed
  qed
  then show ?case using v1(1,2) v2(1,2)
    by (intro exI [of _ "v1 @ v2"]) simp
qed

lemma rows_loop_total:
  "(\<And>i. \<exists>v. f i = Inr v) \<Longrightarrow> \<exists>feats. rows_loop f hs feat = Inr feats"
proof (induction hs arbitrary: feat)
  case Nil
  show ?case by simp
next
  case (Cons h hs)
  obtain v where "f h = Inr v" using Cons.prems by blast
  then show ?case using Cons.IH [OF Cons.prems] by simp
qed

lemma cols_loop_total:
  "(\<And>i j. \<exists>v. g i j = Inr v) \<Longrightarrow> \<exists>feats. cols_loop g ws hs feat = Inr feats"
proof (induction ws arbitrary: feat)
  case Nil
  show ?case by simp
next
  case (Cons w ws)
  obtain f1 where "rows_loop (g w) hs feat = Inr f1"
    using rows_loop_total [of "g w"] Cons.prems by blast
  then show ?case using Cons.IH [OF Cons.prems] by simp
qed

lemma length_py_range [simp]: "length (py_range n) = nat n"
  by (simp add: py_range_def)

lemma py_range_nth: "k < nat n \<Longrightarrow> py_range n ! k = int k"
  by (simp add: py_range_def)

lemma compute_feature_Inr: "\<exists>v. compute_feature b = Inr v"
  using compute_feature_returns by blast

lemma block_loop_result:
  assumes "cols_loop (\<lambda>idx_w idx_h. compute_feature (B idx_h idx_w))
             (py_range nbw) (py_range nbh) [] = Inr feats"
  shows "length feats = nat nbw * nat nbh
         \<and> (\<forall>k < nat nbw * nat nbh.
               compute_feature (B (int (k mod nat nbh)) (int (k div nat nbh))) = Inr (feats ! k))"
proof -
  from cols_loop_result [OF assms] obtain vs where vs: "feats = [] @ vs"
    "length vs = length (py_range nbw) * length (py_range nbh)"
    "\<forall>k < length (py_range nbw) * length (py_range nbh).
        compute_feature (B (py_range nbh ! (k mod length (py_range nbh)))
                           (py_range nbw ! (k div length (py_range nbh)))) = Inr (vs ! k)"
    by blast
  have "compute_feature (B (int (k mod nat nbh)) (int (k div nat nbh))) = Inr (feats ! k)"
    if k: "k < nat nbw * nat nbh" for k
  proof -
    have n: "0 < nat nbh" using k by (cases "nat nbh = 0") auto
    then have m: "k mod nat nbh < nat nbh" by simp
    have d: "k div nat nbh < nat nbw"
      using k n by (simp add: less_mult_imp_div_less)
    have "compute_feature (B (py_range nbh ! (k mod nat nbh)) (py_range nbw ! (k div nat nbh)))
          = Inr (vs ! k)"
      using vs(3) k by simp
    then show ?thesis using vs(1) by (simp add: py_range_nth [OF m] py_range_nth [OF d])
  qed
  then show ?thesis using vs(1,2) by simp
qed

lemma py_slice_nonneg:
  assumes "0 \<le> a" "0 \<le> b"
  shows "py_slice a b xs = take (nat b - nat a) (drop (nat a) xs)"
proof (cases "length xs \<le> nat a")
  case True
  then show ?thesis using assms by (simp add: py_slice_def py_clamp_index_def Let_def)
next
  case False
  then have a: "min (nat a) (length xs) = nat a" by simp
  show ?thesis
  proof (cases "nat b \<le> length xs")
    case True
    then show ?thesis using assms a by (simp add: py_slice_def py_clamp_index_def Let_def)
  next
    case b: False
    then have "min (nat b) (length xs) = length xs" by simp
    then show ?thesis using assms a b False
      by (simp add: py_slice_def py_clamp_index_def Let_def)
  qed
qed

lemma block_at_take_drop:
  assumes "0 \<le> idx_h" "0 \<le> idx_w" "0 < bsh" "0 < bsw" "0 < s"
  shows "block_at N idx_h idx_w bsh bsw s =
     map (\<lambda>row. take (nat (((idx_w + 1) * bsw) div s) - nat ((idx_w * bsw) div s))
                   (drop (nat ((idx_w * bsw) div s)) row))
         (take (nat (((idx_h + 1) * bsh) div s) - nat ((idx_h * bsh) div s))
            (drop (nat ((idx_h * bsh) div s)) N))"
proof -
  have "0 \<le> (idx_h * bsh) div s" "0 \<le> ((idx_h + 1) * bsh) div s"
       "0 \<le> (idx_w * bsw) div s" "0 \<le> ((idx_w + 1) * bsw) div s"
    using assms by (simp_all add: pos_imp_zdiv_nonneg_iff)
  then show ?thesis by (simp add: block_at_def py_slice_nonneg)
qed

lemma block_at_spec_eq:
  assumes "s dvd bsh" "s dvd bsw"
  shows "block_at N idx_h idx_w bsh bsw s = block_at_spec N idx_h idx_w bsh bsw s"
  using assms by (simp add: block_at_def block_at_spec_def div_mult_swap)

text \<open>
  Claim C4 (amended). At each scale \<open>s\<close> the block loop never fails and feeds the
  blocks to \<open>compute_feature\<close> in column-major order: row \<open>k\<close> of the feature
  matrix is the feature vector of the block with \<open>idx_w = k div num_block_h\<close> and
  \<open>idx_h = k mod num_block_h\<close>. The block is the slice of the normalized image with
  rows from \<open>(idx_h * block_size_h) div s\<close> up to \<open>((idx_h + 1) * block_size_h) div s\<close>
  and columns likewise: the product is floor-divided, not the block size. The
  boundaries are the multiples of \<open>block_size div s\<close> when \<open>s\<close> divides the block
  sizes (as for the default 96).
\<close>

theorem block_extents_column_major:
  "(\<exists>feats. cols_loop (\<lambda>idx_w idx_h. compute_feature (block_at N idx_h idx_w bsh bsw s))
              (py_range nbw) (py_range nbh) [] = Inr feats)
   \<and> (\<forall>feats. cols_loop (\<lambda>idx_w idx_h. compute_feature (block_at N idx_h idx_w bsh bsw s))
              (py_range nbw) (py_range nbh) [] = Inr feats \<longrightarrow>
         length feats = nat nbw * nat nbh
         \<and> (\<forall>k < nat nbw * nat nbh.
               compute_feature (block_at N (int (k mod nat nbh)) (int (k div nat nbh)) bsh bsw s)
                 = Inr (feats ! k)))
   \<and> (0 \<le> idx_h \<and> 0 \<le> idx_w \<and> 0 < bsh \<and> 0 < bsw \<and> 0 < s \<longrightarrow>
        block_at N idx_h idx_w bsh bsw s =
          map (\<lambda>row. take (nat (((idx_w + 1) * bsw) div s) - nat ((idx_w * bsw) div s))
                        (drop (nat ((idx_w * bsw) div s)) row))
              (take (nat (((idx_h + 1) * bsh) div s) - nat ((idx_h * bsh) div s))
                 (drop (nat ((idx_h * bsh) div s)) N)))
   \<and> (s dvd bsh \<and> s dvd bsw \<longrightarrow>
        block_at N idx_h idx_w bsh bsw s = block_at_spec N idx_h idx_w bsh bsw s)
   \<and> scale_features e window nbh nbw bsh bsw s img =
        ebind (normalize e img window) (\<lambda>img_nomalized.
          cols_loop (\<lambda>idx_w idx_h.
              compute_feature (block_at img_nomalized idx_h idx_w bsh bsw s))
            (py_range nbw) (py_range nbh) [])"
proof (intro conjI)
  show "\<exists>feats. cols_loop (\<lambda>idx_w idx_h. compute_feature (block_at N idx_h idx_w bsh bsw s))
              (py_range nbw) (py_range nbh) [] = Inr feats"
    by (rule cols_loop_total) (rule compute_feature_Inr)
next
  show "\<forall>feats. cols_loop (\<lambda>idx_w idx_h. compute_feature (block_at N idx_h idx_w bsh bsw s))
              (py_range nbw) (py_range nbh) [] = Inr feats \<longrightarrow>
         length feats = nat nbw * nat nbh
         \<and> (\<forall>k < nat nbw * nat nbh.
               compute_feature (block_at N (int (k mod nat nbh)) (int (k div nat nbh)) bsh bsw s)
                 = Inr (feats ! k))"
    using block_loop_result [of "\<lambda>idx_h idx_w. block_at N idx_h idx_w bsh bsw s" nbw nbh]
    by blast
next
  show "0 \<le> idx_h \<and> 0 \<le> idx_w \<and> 0 < bsh \<and> 0 < bsw \<and> 0 < s \<longrightarrow>
        block_at N idx_h idx_w bsh bsw s =
          map (\<lambda>row. take (nat (((idx_w + 1) * bsw) div s) - nat ((idx_w * bsw) div s))
                        (drop (nat ((idx_w * bsw) div s)) row))
              (take (nat (((idx_h + 1) * bsh) div s) - nat ((idx_h * bsh) div s))
                 (drop (nat ((idx_h * bsh) div s)) N))"
    using block_at_take_drop by blast
next
  show "s dvd bsh \<and> s dvd bsw \<longrightarrow>
        block_at N idx_h idx_w bsh bsw s = block_at_spec N idx_h idx_w bsh bsw s"
    using block_at_spec_eq by blast
next
  show "scale_features e window nbh nbw bsh bsw s img =
        ebind (normalize e img window) (\<lambda>img_nomalized.
          cols_loop (\<lambda>idx_w idx_h.
              compute_feature (block_at img_nomalized idx_h idx_w bsh bsw s))
            (py_range nbw) (py_range nbh) [])"
    by (simp add: scale_features_def)
qed

text \<open>
  A 4x4 image in 2x2 blocks at scale 1: the second feature row belongs to the block
  \<open>idx_h = 1, idx_w = 0\<close>, rows 2 to 3 and columns 0 to 1.
\<close>

theorem block_extents_column_major_witness:
  "(\<exists>feats.
      cols_loop (\<lambda>idx_w idx_h. compute_feature
          (block_at [[Fin 0, Fin 1, Fin 2, Fin 3], [Fin 4, Fin 5, Fin 6, Fin 7],
                     [Fin 8, Fin 9, Fin 10, Fin 11], [Fin 12, Fin 13, Fin 14, Fin 15]]
             idx_h idx_w 2 2 1))
        (py_range 2) (py_range 2) [] = Inr feats
      \<and> length feats = 4
      \<and> compute_feature [[Fin 8, Fin 9], [Fin 12, Fin 13]] = Inr (feats ! 1))
   \<and> block_at [[Fin 0, Fin 1, Fin 2, Fin 3], [Fin 4, Fin 5, Fin 6, Fin 7],
                [Fin 8, Fin 9, Fin 10, Fin 11], [Fin 12, Fin 13, Fin 14, Fin 15]] 1 0 2 2 1
       = [[Fin 8, Fin 9], [Fin 12, Fin 13]]
   \<and> block_at_spec [[Fin 0, Fin 1, Fin 2, Fin 3], [Fin 4, Fin 5, Fin 6, Fin 7],
                [Fin 8, Fin 9, Fin 10, Fin 11], [Fin 12, Fin 13, Fin 14, Fin 15]] 1 0 2 2 1
       = [[Fin 8, Fin 9], [Fin 12, Fin 13]]"
proof -
  let ?N = "[[Fin 0, Fin 1, Fin 2, Fin 3], [Fin 4, Fin 5, Fin 6, Fin 7],
             [Fin 8, Fin 9, Fin 10, Fin 11], [Fin 12, Fin 13, Fin 14, Fin 15]]"
  note t = block_extents_column_major [where N = ?N and bsh = 2 and bsw = 2 and s = 1
      and nbw = 2 and nbh = 2 and idx_h = 1 and idx_w = 0]
  have h3: "(0::int) \<le> 1 \<and> (0::int) \<le> 0 \<and> (0::int) < 2 \<and> (0::int) < 2 \<and> (0::int) < 1"
    by simp
  have h4: "(1::int) dvd 2 \<and> (1::int) dvd 2" by simp
  from t h3 have b: "block_at ?N 1 0 2 2 1 =
      map (\<lambda>row. take (nat (((0 + 1) * 2) div 1) - nat ((0 * 2) div 1))
                        (drop (nat ((0 * 2) div 1)) row))
              (take (nat (((1 + 1) * 2) div 1) - nat ((1 * 2) div 1))
                 (drop (nat ((1 * 2) div 1)) ?N))"
    by blast
  then have b': "block_at ?N 1 0 2 2 1 = [[Fin 8, Fin 9], [Fin 12, Fin 13]]"
    by simp
  from t h4 have "block_at ?N 1 0 2 2 1 = block_at_spec ?N 1 0 2 2 1"
    by blast
  then have c: "block_at_spec ?N 1 0 2 2 1 = [[Fin 8, Fin 9], [Fin 12, Fin 13]]"
    using b' by simp
  from t obtain feats where f:
    "cols_loop (\<lambda>idx_w idx_h. compute_feature (block_at ?N idx_h idx_w 2 2 1))
        (py_range 2) (py_range 2) [] = Inr feats"
    by blast
  with t have g: "length feats = nat 2 * nat 2
         \<and> (\<forall>k < nat 2 * nat 2.
               compute_feature (block_at ?N (int (k mod nat 2)) (int (k div nat 2)) 2 2 1)
                 = Inr (feats ! k))"
    by blast
  then have "\<forall>k < nat 2 * nat 2.
               compute_feature (block_at ?N (int (k mod nat 2)) (int (k div nat 2)) 2 2 1)
                 = Inr (feats ! k)"
    by (rule conjunct2)
  moreover have "(1::nat) < nat 2 * nat 2" by simp
  ultimately have "compute_feature (block_at ?N (int (1 mod nat 2)) (int (1 div nat 2)) 2 2 1)
                 = Inr (feats ! 1)"
    by blast
  then have "compute_feature [[Fin 8, Fin 9], [Fin 12, Fin 13]] = Inr (feats ! 1)"
    using b' by simp
  moreover have "length feats = 4" using g by simp
  ultimately show ?thesis using f b' c by blast
qed

text \<open>
  Claim C4 as stated fails for an odd block size: with block size 3 at scale 2, the
  block \<open>idx_h = 1\<close> of the code has the rows 1 and 2 (from \<open>3 div 2\<close> to \<open>6 div 2\<close>),
  the block of the claim has row 1 only (from \<open>1 * (3 div 2)\<close> to \<open>2 * (3 div 2)\<close>).
\<close>

theorem block_extents_odd_block_size:
  "block_at [[Fin 0, Fin 1, Fin 2], [Fin 3, Fin 4, Fin 5], [Fin 6, Fin 7, Fin 8]] 1 0 3 3 2
     = [[Fin 3], [Fin 6]]
   \<and> block_at_spec [[Fin 0, Fin 1, Fin 2], [Fin 3, Fin 4, Fin 5], [Fin 6, Fin 7, Fin 8]] 1 0 3 3 2
     = [[Fin 3]]"
  by (simp add: block_at_def block_at_spec_def py_slice_def py_clamp_index_def Let_def)

subsection \<open>The shape of the distortion matrix\<close>

lemma scale_features_shape:
  assumes "scale_features e window nbh nbw bsh bsw s img = Inr F"
  shows "length F = nat nbw * nat nbh \<and> (\<forall>row \<in> set F. length row = 18)"
proof -
  from assms obtain N where
    c: "cols_loop (\<lambda>idx_w idx_h. compute_feature (block_at N idx_h idx_w bsh bsw s))
          (py_range nbw) (py_range nbh) [] = Inr F"
    by (cases "normalize e img window") (auto simp: scale_features_def)
  from block_loop_result [of "\<lambda>idx_h idx_w. block_at N idx_h idx_w bsh bsw s", OF c]
  have l: "length F = nat nbw * nat nbh"
    and r: "\<forall>k < nat nbw * nat nbh.
       compute_feature (block_at N (int (k mod nat nbh)) (int (k div nat nbh)) bsh bsw s)
         = Inr (F ! k)"
    by blast+
  have "length row = 18" if "row \<in> set F" for row
  proof -
    from that obtain k where k: "k < length F" "row = F ! k"
      by (auto simp: in_set_conv_nth)
    then have "compute_feature (block_at N (int (k mod nat nbh)) (int (k div nat nbh)) bsh bsw s)
         = Inr row"
      using r l by simp
    then show ?thesis
      using compute_feature_returns
        [of "block_at N (int (k mod nat nbh)) (int (k div nat nbh)) bsh bsw s"]
      by auto
  qed
  then show ?thesis using l by blast
qed

lemma scales_loop_two:
  assumes "scales_loop e window nbh nbw bsh bsw [1, 2] img [] = Inr ds"
  shows "\<exists>F1 img2 F2. ds = [F1, F2]
           \<and> scale_features e window nbh nbw bsh bsw 1 img = Inr F1
           \<and> downsample e img = Inr img2
           \<and> scale_features e window nbh nbw bsh bsw 2 img2 = Inr F2"
proof -
  from assms obtain F1 where 1: "scale_features e window nbh nbw bsh bsw 1 img = Inr F1"
    by (cases "scale_features e window nbh nbw bsh bsw 1 img") auto
  from assms 1 obtain img2 where 2: "downsample e img = Inr img2"
    by (cases "downsample e img") auto
  from assms 1 2 obtain F2 where 3: "scale_features e window nbh nbw bsh bsw 2 img2 = Inr F2"
    by (cases "scale_features e window nbh nbw bsh bsw 2 img2") auto
  from assms 1 2 3 have "ds = [F1, F2]" by simp
  with 1 2 3 show ?thesis by blast
qed

lemma np_concatenate_two:
  assumes "np_concatenate_axis1 [F1, F2] = Inr M" "length F2 = length F1"
  shows "length M = length F1 \<and> (\<forall>i < length F1. M ! i = F1 ! i @ F2 ! i)"
proof -
  from assms(1) have "M = map (\<lambda>i. concat (map (\<lambda>a. a ! i) [F1, F2])) [0..<length F1]"
    by (auto simp: np_concatenate_axis1_def split: if_splits)
  then show ?thesis by simp
qed

lemma niqe_crop_counts:
  assumes "niqe_crop img bsh bsw = Inr (nbh, nbw, img')"
  shows "\<exists>h w. shape img = [h, w] \<and> nbh = int h div bsh \<and> nbw = int w div bsw"
proof -
  from assms have l: "length (shape img) = 2"
    by (auto simp: niqe_crop_def split: if_splits)
  then obtain h w where s: "shape img = [h, w]"
    by (cases "shape img"; cases "tl (shape img)") auto
  with assms show ?thesis
    by (auto simp: niqe_crop_def Let_def split: if_splits)
qed

lemma niqe_distparam_shape:
  assumes "niqe_distparam e img window bsh bsw = Inr M"
  shows "\<exists>h w. shape img = [h, w]
           \<and> length M = nat (int w div bsw) * nat (int h div bsh)
           \<and> (\<forall>row \<in> set M. length row = 36)"
proof -
  from assms obtain nbh nbw img' where c: "niqe_crop img bsh bsw = Inr (nbh, nbw, img')"
    by (cases "niqe_crop img bsh bsw") (auto simp: niqe_distparam_def)
  from assms c obtain ds where
    d: "scales_loop e window nbh nbw bsh bsw [1, 2] img' [] = Inr ds"
    and m: "np_concatenate_axis1 ds = Inr M"
    by (cases "scales_loop e window nbh nbw bsh bsw [1, 2] img' []")
       (auto simp: niqe_distparam_def)
  from scales_loop_two [OF d] obtain F1 img2 F2 where ds: "ds = [F1, F2]"
    and 1: "scale_features e window nbh nbw bsh bsw 1 img' = Inr F1"
    and 2: "scale_features e window nbh nbw bsh bsw 2 img2 = Inr F2"
    by blast
  note s1 = scale_features_shape [OF 1] and s2 = scale_features_shape [OF 2]
  from s1 s2 have e: "length F2 = length F1" by simp
  from np_concatenate_two [OF m [unfolded ds] e]
  have lm: "length M = length F1" and rows: "\<forall>i < length F1. M ! i = F1 ! i @ F2 ! i"
    by blast+
  have "length row = 36" if "row \<in> set M" for row
  proof -
    from that obtain i where i: "i < length M" "row = M ! i"
      by (auto simp: in_set_conv_nth)
    then have "row = F1 ! i @ F2 ! i" using rows lm by simp
    moreover have "F1 ! i \<in> set F1" "F2 ! i \<in> set F2" using i lm e by simp_all
    ultimately show ?thesis using s1 s2 by simp
  qed
  moreover from niqe_crop_counts [OF c] obtain h w where
    "shape img = [h, w]" "nbh = int h div bsh" "nbw = int w div bsw" by blast
  ultimately show ?thesis using lm s1 by auto
qed

subsection \<open>The all-zero image with the unit window\<close>

lemma rows2d_replicate: "rows2d h w (replicate (h * w) c) = replicate h (replicate w c)"
proof -
  have "take w (drop (i * w) (replicate (h * w) c)) = replicate w c" if "i < h" for i
  proof -
    have "w \<le> (h - i) * w" using that by (cases "h - i") simp_all
    then have "min w (h * w - i * w) = w" by (simp add: diff_mult_distrib)
    then show ?thesis by simp
  qed
  then have "map (\<lambda>i. take w (drop (i * w) (replicate (h * w) c))) [0..<h]
             = map (\<lambda>i. replicate w c) [0..<h]"
    by (intro map_cong) simp_all
  then show ?thesis by (simp add: rows2d_def map_replicate_const)
qed

lemma np_roll1_replicate: "np_roll1 s (replicate n x) = replicate n x"
proof (cases "n = 0")
  case True
  then show ?thesis by (simp add: np_roll1_def)
next
  case False
  define k where "k = nat (s mod int n)"
  have "k < n" unfolding k_def using False by (intro nat_mod_less) simp
  then have "replicate (n - (n - k)) x @ replicate (n - k) x = replicate n x"
    by (simp add: replicate_add [symmetric])
  then show ?thesis using False by (simp add: np_roll1_def Let_def k_def)
qed

lemma np_roll_replicate:
  "np_roll (replicate h (replicate w x)) s = replicate h (replicate w x)"
  by (simp add: np_roll_def np_roll1_replicate)

lemma mat_mul_zero:
  "mat_mul (replicate h (replicate w (Fin 0))) (replicate h (replicate w (Fin 0)))
   = replicate h (replicate w (Fin 0))"
  by (simp add: mat_mul_def)

lemma estimate_aggd_param_zero:
  "estimate_aggd_param (replicate h (replicate w (Fin 0))) = Inr (Fin (1 / 5), NaN, NaN)"
proof -
  let ?b = "concat (replicate h (replicate w (Fin 0)))"
  have z: "\<forall>x \<in> set ?b. x = Fin 0" by auto
  then have "filter (\<lambda>x. flt x (Fin 0)) ?b = []" "filter (\<lambda>x. flt (Fin 0) x) ?b = []"
    by (auto simp: filter_empty_conv)
  then have "left_std ?b = NaN" "right_std ?b = NaN"
    by (simp_all add: left_std_no_negative right_std_no_positive)
  then show ?thesis
    using estimate_aggd_param_degenerate [of "replicate h (replicate w (Fin 0))"] by simp
qed

lemma compute_feature_zero:
  "compute_feature (replicate h (replicate w (Fin 0))) = Inr zero_block_feature"
proof -
  let ?Z = "replicate h (replicate w (Fin 0))"
  have p: "mat_mul ?Z (np_roll ?Z s) = ?Z" for s
    by (simp add: np_roll_replicate mat_mul_zero)
  have e: "estimate_aggd_param (mat_mul ?Z (np_roll ?Z s)) = Inr (Fin (1 / 5), NaN, NaN)" for s
    by (simp only: p estimate_aggd_param_zero)
  have "compute_feature ?Z =
     Inr [Fin (1 / 5), fdiv (fadd NaN NaN) (Fin 2),
          Fin (1 / 5), shift_mean (Fin (1 / 5)) NaN NaN, NaN, NaN,
          Fin (1 / 5), shift_mean (Fin (1 / 5)) NaN NaN, NaN, NaN,
          Fin (1 / 5), shift_mean (Fin (1 / 5)) NaN NaN, NaN, NaN,
          Fin (1 / 5), shift_mean (Fin (1 / 5)) NaN NaN, NaN, NaN]"
    by (rule compute_feature_value [OF estimate_aggd_param_zero e e e e])
  moreover have "shift_mean (Fin (1 / 5)) NaN NaN = NaN"
    by (simp add: shift_mean_def fsub_def)
  ultimately show ?thesis by (simp add: zero_block_feature_def)
qed

lemma normalize_zero:
  "normalize ext_example (replicate h (replicate w (Fin 0))) [[Fin 1]]
   = Inr (replicate h (replicate w (Fin 0)))"
  by (simp add: normalize_def ext_example_def convolve_example_def mat_zip_def
      fsquare_def fsub_def)

lemma downsample_zero:
  assumes "0 < h" "0 < w"
  shows "downsample ext_example (replicate h (replicate w (Fin 0)))
         = Inr (replicate ((h + 1) div 2) (replicate ((w + 1) div 2) (Fin 0)))"
  using assms by (simp add: downsample_def ext_example_def imresize_example_def)

lemma py_range_2: "py_range 2 = [0, 1]"
  by (simp add: py_range_def numeral_2_eq_2)

lemma block_at_zero:
  assumes "0 \<le> idx_h" "0 \<le> idx_w" "0 < bsh" "0 < bsw" "0 < s"
  shows "\<exists>h' w'. block_at (replicate h (replicate w (Fin 0))) idx_h idx_w bsh bsw s
           = replicate h' (replicate w' (Fin 0))"
  by (simp add: block_at_take_drop [OF assms])

lemma scale_features_zero:
  assumes "0 < bsh" "0 < bsw" "0 < s"
  shows "scale_features ext_example [[Fin 1]] nbh nbw bsh bsw s (replicate h (replicate w (Fin 0)))
         = Inr F \<Longrightarrow> F = replicate (nat nbw * nat nbh) zero_block_feature"
proof -
  let ?Z = "replicate h (replicate w (Fin 0))"
  assume a: "scale_features ext_example [[Fin 1]] nbh nbw bsh bsw s ?Z = Inr F"
  then have c: "cols_loop (\<lambda>idx_w idx_h. compute_feature (block_at ?Z idx_h idx_w bsh bsw s))
          (py_range nbw) (py_range nbh) [] = Inr F"
    by (simp add: scale_features_def normalize_zero)
  from block_loop_result [of "\<lambda>idx_h idx_w. block_at ?Z idx_h idx_w bsh bsw s", OF c]
  have l: "length F = nat nbw * nat nbh"
    and r: "\<forall>k < nat nbw * nat nbh.
       compute_feature (block_at ?Z (int (k mod nat nbh)) (int (k div nat nbh)) bsh bsw s)
         = Inr (F ! k)"
    by blast+
  have "F ! k = zero_block_feature" if "k < nat nbw * nat nbh" for k
  proof -
    obtain h' w' where "block_at ?Z (int (k mod nat nbh)) (int (k div nat nbh)) bsh bsw s
        = replicate h' (replicate w' (Fin 0))"
      using block_at_zero [of "int (k mod nat nbh)" "int (k div nat nbh)" bsh bsw s h w] assms
      by auto
    moreover have "compute_feature
        (block_at ?Z (int (k mod nat nbh)) (int (k div nat nbh)) bsh bsw s) = Inr (F ! k)"
      using r that by blast
    ultimately show ?thesis by (simp add: compute_feature_zero)
  qed
  then show ?thesis using l by (intro nth_equalityI) simp_all
qed

lemma scale_features_total:
  assumes "normalize e img window = Inr N"
  shows "\<exists>F. scale_features e window nbh nbw bsh bsw s img = Inr F"
  using assms cols_loop_total [of "\<lambda>idx_w idx_h. compute_feature (block_at N idx_h idx_w bsh bsw s)"]
    compute_feature_Inr
  by (simp add: scale_features_def)

lemma scale_features_zero_eq:
  assumes "0 < bsh" "0 < bsw" "0 < s"
  shows "scale_features ext_example [[Fin 1]] nbh nbw bsh bsw s (replicate h (replicate w (Fin 0)))
         = Inr (replicate (nat nbw * nat nbh) zero_block_feature)"
proof -
  obtain F where f: "scale_features ext_example [[Fin 1]] nbh nbw bsh bsw s
      (replicate h (replicate w (Fin 0))) = Inr F"
    using scale_features_total [OF normalize_zero] by blast
  from scale_features_zero [OF assms f] f show ?thesis by simp
qed

lemma niqe_crop_192:
  "niqe_crop (NDArray [192, 192] (replicate 36864 (Fin 0))) 96 96
   = Inr (2, 2, replicate 192 (replicate 192 (Fin 0)))"
proof -
  have "rows2d 192 192 (replicate 36864 (Fin 0)) = replicate 192 (replicate 192 (Fin 0))"
    using rows2d_replicate [of 192 192 "Fin 0"] by simp
  then show ?thesis
    by (simp add: niqe_crop_def Let_def py_slice_nonneg)
qed

lemma niqe_distparam_192:
  "niqe_distparam ext_example (NDArray [192, 192] (replicate 36864 (Fin 0))) [[Fin 1]] 96 96
   = Inr (replicate 4 (zero_block_feature @ zero_block_feature))"
proof -
  have d: "downsample ext_example (replicate 192 (replicate 192 (Fin 0)))
        = Inr (replicate 96 (replicate 96 (Fin 0)))"
    using downsample_zero [of 192 192] by simp
  have s1: "scale_features ext_example [[Fin 1]] 2 2 96 96 1 (replicate 192 (replicate 192 (Fin 0)))
        = Inr (replicate 4 zero_block_feature)"
    using scale_features_zero_eq [of 96 96 1 2 2 192 192] by simp
  have s2: "scale_features ext_example [[Fin 1]] 2 2 96 96 2 (replicate 96 (replicate 96 (Fin 0)))
        = Inr (replicate 4 zero_block_feature)"
    using scale_features_zero_eq [of 96 96 2 2 2 96 96] by simp
  have c: "np_concatenate_axis1 [replicate 4 zero_block_feature, replicate 4 zero_block_feature]
        = Inr (replicate 4 (zero_block_feature @ zero_block_feature))"
    by (simp add: np_concatenate_axis1_def numeral_eq_Suc)
  show ?thesis
    by (simp add: niqe_distparam_def niqe_crop_192 s1 s2 d c)
qed

lemma scales_loop_192:
  "scales_loop ext_example [[Fin 1]] 2 2 96 96 [1, 2] (replicate 192 (replicate 192 (Fin 0))) []
   = Inr [replicate 4 zero_block_feature, replicate 4 zero_block_feature]"
proof -
  have d: "downsample ext_example (replicate 192 (replicate 192 (Fin 0)))
        = Inr (replicate 96 (replicate 96 (Fin 0)))"
    using downsample_zero [of 192 192] by simp
  have s1: "scale_features ext_example [[Fin 1]] 2 2 96 96 1 (replicate 192 (replicate 192 (Fin 0)))
        = Inr (replicate 4 zero_block_feature)"
    using scale_features_zero_eq [of 96 96 1 2 2 192 192] by simp
  have s2: "scale_features ext_example [[Fin 1]] 2 2 96 96 2 (replicate 96 (replicate 96 (Fin 0)))
        = Inr (replicate 4 zero_block_feature)"
    using scale_features_zero_eq [of 96 96 2 2 2 96 96] by simp
  show ?thesis by (simp add: s1 s2 d)
qed

text \<open>
  Claim C8. Whenever \<open>niqe\<close> gets past the concatenation, the image is 2-D and the
  distortion matrix has \<open>num_block_h * num_block_w\<close> rows of 36 columns each; the
  matrices of the two scales have the same number of rows and 18 columns each. For a
  192x192 image and 96x96 blocks the matrix is 4x36.
\<close>

theorem distparam_shape:
  "(\<forall>M. niqe_distparam e img window bsh bsw = Inr M \<longrightarrow>
      (\<exists>h w. shape img = [h, w]
         \<and> length M = nat (int h div bsh) * nat (int w div bsw)
         \<and> (\<forall>row \<in> set M. length row = 36)))
   \<and> (\<forall>ds. scales_loop e window nbh nbw bsh bsw [1, 2] img' [] = Inr ds \<longrightarrow>
      (\<exists>F1 F2. ds = [F1, F2]
         \<and> length F1 = nat nbh * nat nbw \<and> length F2 = nat nbh * nat nbw
         \<and> (\<forall>row \<in> set F1. length row = 18) \<and> (\<forall>row \<in> set F2. length row = 18)))
   \<and> (\<forall>M. shape img = [192, 192] \<and> niqe_distparam e img window 96 96 = Inr M \<longrightarrow>
      length M = 4 \<and> (\<forall>row \<in> set M. length row = 36))"
proof (intro conjI allI impI)
  fix M assume "niqe_distparam e img window bsh bsw = Inr M"
  from niqe_distparam_shape [OF this]
  show "\<exists>h w. shape img = [h, w]
         \<and> length M = nat (int h div bsh) * nat (int w div bsw)
         \<and> (\<forall>row \<in> set M. length row = 36)"
    by (auto simp: mult.commute)
next
  fix ds assume "scales_loop e window nbh nbw bsh bsw [1, 2] img' [] = Inr ds"
  from scales_loop_two [OF this] obtain F1 img2 F2 where ds: "ds = [F1, F2]"
    and 1: "scale_features e window nbh nbw bsh bsw 1 img' = Inr F1"
    and 2: "scale_features e window nbh nbw bsh bsw 2 img2 = Inr F2"
    by blast
  from scale_features_shape [OF 1] scale_features_shape [OF 2] ds
  show "\<exists>F1 F2. ds = [F1, F2]
         \<and> length F1 = nat nbh * nat nbw \<and> length F2 = nat nbh * nat nbw
         \<and> (\<forall>row \<in> set F1. length row = 18) \<and> (\<forall>row \<in> set F2. length row = 18)"
    by (auto simp: mult.commute)
next
  fix M assume a: "shape img = [192, 192] \<and> niqe_distparam e img window 96 96 = Inr M"
  then have "niqe_distparam e img window 96 96 = Inr M" by simp
  from niqe_distparam_shape [OF this] a
  show "length M = 4" by auto
next
  fix M assume a: "shape img = [192, 192] \<and> niqe_distparam e img window 96 96 = Inr M"
  then have "niqe_distparam e img window 96 96 = Inr M" by simp
  from niqe_distparam_shape [OF this]
  show "\<forall>row \<in> set M. length row = 36" by auto
qed

text \<open>
  The all-zero 192x192 image with the unit window: four rows, each the 18 features
  of a zero block at scale 1 followed by the 18 at scale 2.
\<close>

theorem distparam_shape_witness:
  "niqe_distparam ext_example (NDArray [192, 192] (replicate 36864 (Fin 0))) [[Fin 1]] 96 96
     = Inr (replicate 4 (zero_block_feature @ zero_block_feature))
   \<and> length (replicate 4 (zero_block_feature @ zero_block_feature)) = 4
   \<and> length (zero_block_feature @ zero_block_feature) = 36
   \<and> scales_loop ext_example [[Fin 1]] 2 2 96 96 [1, 2]
        (replicate 192 (replicate 192 (Fin 0))) []
     = Inr [replicate 4 zero_block_feature, replicate 4 zero_block_feature]
   \<and> length zero_block_feature = 18"
proof -
  let ?img = "NDArray [192, 192] (replicate 36864 (Fin 0))"
  let ?M = "replicate 4 (zero_block_feature @ zero_block_feature)"
  note t = distparam_shape [where e = ext_example and img = ?img and window = "[[Fin 1]]"
      and bsh = 96 and bsw = 96 and nbh = 2 and nbw = 2
      and img' = "replicate 192 (replicate 192 (Fin 0))"]
  have m: "niqe_distparam ext_example ?img [[Fin 1]] 96 96 = Inr ?M"
    by (rule niqe_distparam_192)
  have "shape ?img = [192, 192] \<and> niqe_distparam ext_example ?img [[Fin 1]] 96 96 = Inr ?M"
    using m by simp
  with t have "length ?M = 4 \<and> (\<forall>row \<in> set ?M. length row = 36)"
    by blast
  then have a: "length ?M = 4" and b: "length (zero_block_feature @ zero_block_feature) = 36"
    by simp_all
  have s: "scales_loop ext_example [[Fin 1]] 2 2 96 96 [1, 2]
        (replicate 192 (replicate 192 (Fin 0))) []
     = Inr [replicate 4 zero_block_feature, replicate 4 zero_block_feature]"
    by (rule scales_loop_192)
  with t have "\<exists>F1 F2. [replicate 4 zero_block_feature, replicate 4 zero_block_feature] = [F1, F2]
         \<and> length F1 = nat 2 * nat 2 \<and> length F2 = nat 2 * nat 2
         \<and> (\<forall>row \<in> set F1. length row = 18) \<and> (\<forall>row \<in> set F2. length row = 18)"
    by blast
  then have c: "length zero_block_feature = 18" by auto
  show ?thesis using m a b s c by blast
qed

subsection \<open>The two NaN policies of the aggregation\<close>

lemma foldl_fadd_skip_nan:
  "foldl fadd a (map (\<lambda>x. if fisnan x then Fin 0 else x) xs)
   = foldl fadd a (filter (\<lambda>x. \<not> fisnan x) xs)"
  by (induction xs arbitrary: a) simp_all

lemma np_nanmean_spec: "np_nanmean col = spec_nan_ignoring_mean col"
  by (simp add: np_nanmean_def spec_nan_ignoring_mean_def np_mean_def fsum_def
      foldl_fadd_skip_nan)

lemma distparam_no_nan_spec: "distparam_no_nan distparam = spec_rows_without_nan distparam"
  by (simp add: distparam_no_nan_def spec_rows_without_nan_def list_ex_iff)

text \<open>
  Claim C5. In the quality step, \<open>mu_distparam\<close> is, column by column, the mean of
  the entries of that column that are not NaN (\<open>np.nanmean\<close> replaces each NaN by zero
  and divides by the number of the other entries), so a row with a NaN still
  contributes its other entries; \<open>cov_distparam\<close> is the covariance of the rows that
  contain no NaN at all. The score is computed from these two.
\<close>

theorem aggregation_nan_policies:
  "mu_distparam distparam
     = map (\<lambda>j. spec_nan_ignoring_mean (column distparam j)) [0..<ncols distparam]
   \<and> cov_distparam distparam = np_cov (ncols distparam) (spec_rows_without_nan distparam)
   \<and> niqe_quality e mu_pris cov_pris distparam =
       ebind (mat_zip fadd cov_pris (cov_distparam distparam)) (\<lambda>s.
       ebind (pinv e (map (map (\<lambda>x. fdiv x (Fin 2))) s)) (\<lambda>invcov_param.
         niqe_score mu_pris (mu_distparam distparam) invcov_param))"
proof (intro conjI)
  show "mu_distparam distparam
     = map (\<lambda>j. spec_nan_ignoring_mean (column distparam j)) [0..<ncols distparam]"
    by (simp add: mu_distparam_def np_nanmean_spec)
next
  show "cov_distparam distparam = np_cov (ncols distparam) (spec_rows_without_nan distparam)"
    by (simp add: cov_distparam_def distparam_no_nan_spec)
next
  show "niqe_quality e mu_pris cov_pris distparam =
       ebind (mat_zip fadd cov_pris (cov_distparam distparam)) (\<lambda>s.
       ebind (pinv e (map (map (\<lambda>x. fdiv x (Fin 2))) s)) (\<lambda>invcov_param.
         niqe_score mu_pris (mu_distparam distparam) invcov_param))"
    by (cases "mat_zip fadd cov_pris (cov_distparam distparam)")
       (simp_all add: niqe_quality_def pooled_cov_def)
qed

text \<open>
  Three rows of two columns, the first row with a NaN: its entry 1 enters the mean of
  the first column, \<open>(1 + 3 + 5) / 3\<close>, while the covariance is that of the other two
  rows.
\<close>

theorem aggregation_nan_policies_witness:
  "mu_distparam [[Fin 1, NaN], [Fin 3, Fin 4], [Fin 5, Fin 8]] = [Fin 3, Fin 6]
   \<and> spec_rows_without_nan [[Fin 1, NaN], [Fin 3, Fin 4], [Fin 5, Fin 8]]
       = [[Fin 3, Fin 4], [Fin 5, Fin 8]]
   \<and> cov_distparam [[Fin 1, NaN], [Fin 3, Fin 4], [Fin 5, Fin 8]]
       = [[Fin 2, Fin 4], [Fin 4, Fin 8]]"
proof -
  let ?D = "[[Fin 1, NaN], [Fin 3, Fin 4], [Fin 5, Fin 8]]"
  note t = aggregation_nan_policies [where distparam = ?D]
  have n: "ncols ?D = 2" by (simp add: ncols_def)
  have u: "[0..<2] = [0, 1]" by (simp add: numeral_2_eq_2)
  have r: "spec_rows_without_nan ?D = [[Fin 3, Fin 4], [Fin 5, Fin 8]]"
    by (simp add: spec_rows_without_nan_def)
  from t have "mu_distparam ?D
     = map (\<lambda>j. spec_nan_ignoring_mean (column ?D j)) [0..<ncols ?D]"
    by (rule conjunct1)
  then have m: "mu_distparam ?D = [Fin 3, Fin 6]"
    by (simp add: n u spec_nan_ignoring_mean_def column_def np_mean_def fsum_def)
  from t have "cov_distparam ?D = np_cov (ncols ?D) (spec_rows_without_nan ?D)"
    by blast
  then have c: "cov_distparam ?D = [[Fin 2, Fin 4], [Fin 4, Fin 8]]"
    by (simp add: n u r np_cov_def Let_def column_def np_mean_def fsum_def fsub_def)
  show ?thesis using m r c by blast
qed

subsection \<open>The entry point\<close>

text \<open>
  Claim C9. \<open>calculate_niqe\<close> accepts extra keyword arguments and never reads them:
  its result with any \<open>kwargs\<close> is its result with none, and \<open>niqe\<close> is always called
  with the block size 96x96.
\<close>

theorem calculate_niqe_ignores_kwargs:
  "calculate_niqe e img crop_border params_path input_order convert_to kwargs
     = calculate_niqe e img crop_border params_path input_order convert_to []
   \<and> calculate_niqe e img crop_border params_path input_order convert_to kwargs
     = ebind (np_load e (os_path_join params_path ''niqe_pris_params.npz'')) (\<lambda>p.
       ebind (to_single_channel e img input_order convert_to) (\<lambda>img1.
       ebind (if crop_border \<noteq> 0 then crop_border_slice img1 crop_border else Inr img1)
         (\<lambda>img2.
           niqe e (nd_map fround img2) (mu_pris_param p) (cov_pris_param p)
             (gaussian_window p) 96 96)))"
  by (simp add: calculate_niqe_def)

subsection \<open>The shape check\<close>

lemma cols_loop_no_rows: "cols_loop g ws [] feat = Inr feat"
  by (induction ws arbitrary: feat) simp_all

lemma block_loop_empty:
  assumes "nbh = 0 \<or> nbw = 0"
  shows "cols_loop g (py_range nbw) (py_range nbh) [] = Inr []"
  using assms by (auto simp: py_range_def cols_loop_no_rows)

lemma scale_features_empty:
  assumes "nbh = 0 \<or> nbw = 0"
  shows "scale_features e window nbh nbw bsh bsw s im
         = ebind (normalize e im window) (\<lambda>N. Inr [])"
  by (simp add: scale_features_def block_loop_empty [OF assms])

lemma np_concatenate_empty: "np_concatenate_axis1 [[], []] = Inl AxisError"
  by (simp add: np_concatenate_axis1_def)

lemma scales_loop_empty:
  assumes "nbh = 0 \<or> nbw = 0"
  shows "ebind (scales_loop e window nbh nbw bsh bsw [1, 2] img' []) np_concatenate_axis1
         = ebind (normalize e img' window) (\<lambda>N1.
           ebind (downsample e img') (\<lambda>img2.
           ebind (normalize e img2 window) (\<lambda>N2. Inl AxisError)))"
proof (cases "normalize e img' window")
  case (Inl err)
  then show ?thesis by (simp add: scale_features_empty [OF assms])
next
  case N1: (Inr N1)
  show ?thesis
  proof (cases "downsample e img'")
    case (Inl err)
    then show ?thesis using N1 by (simp add: scale_features_empty [OF assms])
  next
    case d: (Inr img2)
    show ?thesis
      by (cases "normalize e img2 window")
         (simp_all add: N1 d scale_features_empty [OF assms] np_concatenate_empty)
  qed
qed

lemma niqe_not_2d:
  "length (shape img) \<noteq> 2 \<Longrightarrow> niqe e img mu_pris cov_pris window bsh bsw = Inl AssertionError"
  by (simp add: niqe_def niqe_distparam_def niqe_crop_def)

lemma niqe_crop_small:
  assumes "shape img = [h, w]" "0 < bsh" "0 < bsw" "int h < bsh \<or> int w < bsw"
  shows "\<exists>nbh nbw img'. niqe_crop img bsh bsw = Inr (nbh, nbw, img') \<and> (nbh = 0 \<or> nbw = 0)"
proof -
  have "int h div bsh = 0 \<or> int w div bsw = 0"
    using assms(4) by (auto simp: div_pos_pos_trivial)
  then show ?thesis using assms(1-3) by (simp add: niqe_crop_def Let_def)
qed

text \<open>
  Claim C2 (amended). An input that is not 2-dimensional fails the assertion
  (AssertionError) before any other step. A 2-D image smaller than one block (of
  positive size) in either dimension is not rejected: the crop step returns a block
  count of zero, at each scale the image is normalized and the block loop runs over
  an empty range, producing no feature, and the caller sees the first failure among
  the library calls (convolve, imresize) or else the AxisError of the column-wise
  concatenation of the two empty feature arrays.
\<close>

theorem niqe_shape_check:
  "(length (shape img) \<noteq> 2 \<longrightarrow>
      niqe e img mu_pris cov_pris window bsh bsw = Inl AssertionError)
   \<and> (\<forall>h w. shape img = [h, w] \<and> 0 < bsh \<and> 0 < bsw \<and> (int h < bsh \<or> int w < bsw) \<longrightarrow>
        (\<exists>nbh nbw img'.
            niqe_crop img bsh bsw = Inr (nbh, nbw, img') \<and> (nbh = 0 \<or> nbw = 0)
          \<and> cols_loop (\<lambda>idx_w idx_h. compute_feature (block_at N idx_h idx_w bsh bsw s))
               (py_range nbw) (py_range nbh) [] = Inr []
          \<and> scale_features e window nbh nbw bsh bsw s im
               = ebind (normalize e im window) (\<lambda>N. Inr [])
          \<and> niqe e img mu_pris cov_pris window bsh bsw
               = ebind (normalize e img' window) (\<lambda>N1.
                 ebind (downsample e img') (\<lambda>img2.
                 ebind (normalize e img2 window) (\<lambda>N2. Inl AxisError)))))"
proof (intro conjI allI impI)
  assume "length (shape img) \<noteq> 2"
  then show "niqe e img mu_pris cov_pris window bsh bsw = Inl AssertionError"
    by (rule niqe_not_2d)
next
  fix h w
  assume a: "shape img = [h, w] \<and> 0 < bsh \<and> 0 < bsw \<and> (int h < bsh \<or> int w < bsw)"
  then obtain nbh nbw img' where c: "niqe_crop img bsh bsw = Inr (nbh, nbw, img')"
    and z: "nbh = 0 \<or> nbw = 0"
    using niqe_crop_small [of img h w bsh bsw] by blast
  have "niqe e img mu_pris cov_pris window bsh bsw
          = ebind (ebind (scales_loop e window nbh nbw bsh bsw [1, 2] img' [])
                     np_concatenate_axis1) (niqe_quality e mu_pris cov_pris)"
    by (simp add: niqe_def niqe_distparam_def c)
  also have "\<dots> = ebind (normalize e img' window) (\<lambda>N1.
                 ebind (downsample e img') (\<lambda>img2.
                 ebind (normalize e img2 window) (\<lambda>N2. Inl AxisError)))"
    unfolding scales_loop_empty [OF z]
    by (auto simp: ebind_def split: sum.splits)
  finally have n: "niqe e img mu_pris cov_pris window bsh bsw
               = ebind (normalize e img' window) (\<lambda>N1.
                 ebind (downsample e img') (\<lambda>img2.
                 ebind (normalize e img2 window) (\<lambda>N2. Inl AxisError)))" .
  show "\<exists>nbh nbw img'.
            niqe_crop img bsh bsw = Inr (nbh, nbw, img') \<and> (nbh = 0 \<or> nbw = 0)
          \<and> cols_loop (\<lambda>idx_w idx_h. compute_feature (block_at N idx_h idx_w bsh bsw s))
               (py_range nbw) (py_range nbh) [] = Inr []
          \<and> scale_features e window nbh nbw bsh bsw s im
               = ebind (normalize e im window) (\<lambda>N. Inr [])
          \<and> niqe e img mu_pris cov_pris window bsh bsw
               = ebind (normalize e img' window) (\<lambda>N1.
                 ebind (downsample e img') (\<lambda>img2.
                 ebind (normalize e img2 window) (\<lambda>N2. Inl AxisError)))"
    using c z n block_loop_empty [OF z] scale_features_empty [OF z] by blast
qed

text \<open>
  Claim C2 as stated fails on a 50x50 image with 96x96 blocks: the shape check and
  the crop (lines 86 to 91) return normally, with zero blocks in both directions.
\<close>

theorem niqe_small_image_not_rejected:
  "niqe_crop (NDArray [50, 50] (replicate 2500 (Fin 0))) 96 96 = Inr (0, 0, [])"
  by (simp add: niqe_crop_def Let_def py_slice_def py_clamp_index_def)

text \<open>
  A 50x50x3 array fails the assertion; a 50x192 image gives zero block rows, an empty
  block loop, and the run continues with the resampling.
\<close>

theorem niqe_shape_check_witness:
  "niqe ext_example (NDArray [50, 50, 3] (replicate 7500 (Fin 0))) [] [] [[Fin 1]] 96 96
     = Inl AssertionError
   \<and> niqe_crop (NDArray [50, 192] (replicate 9600 (Fin 0))) 96 96 = Inr (0, 2, [])
   \<and> scale_features ext_example [[Fin 1]] 0 2 96 96 1 [] = Inr []
   \<and> niqe ext_example (NDArray [50, 192] (replicate 9600 (Fin 0))) [] [] [[Fin 1]] 96 96
     = ebind (downsample ext_example []) (\<lambda>img2.
         ebind (normalize ext_example img2 [[Fin 1]]) (\<lambda>N2. Inl AxisError))"
proof -
  let ?a = "NDArray [50, 50, 3] (replicate 7500 (Fin 0))"
  let ?b = "NDArray [50, 192] (replicate 9600 (Fin 0))"
  have 1: "niqe ext_example ?a [] [] [[Fin 1]] 96 96 = Inl AssertionError"
    using niqe_shape_check [where img = ?a and e = ext_example and mu_pris = "[]"
        and cov_pris = "[]" and window = "[[Fin 1]]" and bsh = 96 and bsw = 96]
    by simp
  have c: "niqe_crop ?b 96 96 = Inr (0, 2, [])"
    by (simp add: niqe_crop_def Let_def py_slice_def py_clamp_index_def)
  have n: "normalize ext_example [] [[Fin 1]] = Inr []"
    by (simp add: normalize_def ext_example_def convolve_example_def mat_zip_def)
  have h: "shape ?b = [50, 192] \<and> (0::int) < 96 \<and> (0::int) < 96
           \<and> (int 50 < 96 \<or> int 192 < 96)"
    by simp
  from niqe_shape_check [where img = ?b and e = ext_example and mu_pris = "[]"
        and cov_pris = "[]" and window = "[[Fin 1]]" and bsh = 96 and bsw = 96
        and s = 1 and im = "[]" and N = "[]"] h
  obtain nbh nbw img' where
    r: "niqe_crop ?b 96 96 = Inr (nbh, nbw, img')"
      "scale_features ext_example [[Fin 1]] nbh nbw 96 96 1 []
         = ebind (normalize ext_example [] [[Fin 1]]) (\<lambda>N. Inr [])"
      "niqe ext_example ?b [] [] [[Fin 1]] 96 96
               = ebind (normalize ext_example img' [[Fin 1]]) (\<lambda>N1.
                 ebind (downsample ext_example img') (\<lambda>img2.
                 ebind (normalize ext_example img2 [[Fin 1]]) (\<lambda>N2. Inl AxisError)))"
    by blast
  from r(1) c have "nbh = 0" "nbw = 2" "img' = []" by simp_all
  with r(2,3) n have
    "scale_features ext_example [[Fin 1]] 0 2 96 96 1 [] = Inr []"
    "niqe ext_example ?b [] [] [[Fin 1]] 96 96
     = ebind (downsample ext_example []) (\<lambda>img2.
         ebind (normalize ext_example img2 [[Fin 1]]) (\<lambda>N2. Inl AxisError))"
    by simp_all
  with 1 c show ?thesis by blast
qed

subsection \<open>The covariance of an empty sample\<close>

lemma distparam_no_nan_empty:
  "\<forall>row \<in> set distparam. list_ex fisnan row \<Longrightarrow> distparam_no_nan distparam = []"
  by (simp add: distparam_no_nan_def filter_empty_conv)

lemma np_cov_no_rows: "np_cov k [] = replicate k (replicate k NaN)"
proof -
  have "fmul (fsum []) (fdiv (Fin 1) (Fin 0)) = NaN"
    by (simp add: fsum_def inf_of_def)
  then have "np_cov k [] = map (\<lambda>a. map (\<lambda>b. NaN) [0..<k]) [0..<k]"
    by (simp add: np_cov_def column_def Let_def)
  then show ?thesis by (simp add: map_replicate_const)
qed

lemma map2_fadd_NaN:
  "length row = k \<Longrightarrow> map2 fadd row (replicate k NaN) = replicate k NaN"
  by (induction row arbitrary: k) auto

lemma mat_add_NaN:
  assumes "map length m = replicate k k"
  shows "map2 (map2 fadd) m (replicate k (replicate k NaN)) = replicate k (replicate k NaN)"
proof -
  have l: "length m = k" using assms by (metis length_map length_replicate)
  have r: "length row = k" if "row \<in> set m" for row
  proof -
    from that have "length row \<in> set (map length m)" by simp
    then show ?thesis by (simp add: assms split: if_splits)
  qed
  have "map2 (map2 fadd) m (replicate j (replicate k NaN)) = replicate j (replicate k NaN)"
    if "length m = j" "\<forall>row \<in> set m. length row = k" for j
    using that by (induction m arbitrary: j) (auto simp: map2_fadd_NaN)
  then show ?thesis using l r by blast
qed

lemma pooled_cov_empty_sample:
  assumes "\<forall>row \<in> set distparam. list_ex fisnan row"
  shows "pooled_cov cov_pris distparam =
           (if map length cov_pris = replicate (ncols distparam) (ncols distparam)
            then Inr (replicate (ncols distparam) (replicate (ncols distparam) NaN))
            else Inl ValueError)"
proof -
  let ?k = "ncols distparam"
  have c: "cov_distparam distparam = replicate ?k (replicate ?k NaN)"
    by (simp add: cov_distparam_def distparam_no_nan_empty [OF assms] np_cov_no_rows)
  show ?thesis
  proof (cases "map length cov_pris = replicate ?k ?k")
    case True
    then show ?thesis
      by (simp add: pooled_cov_def c mat_zip_def mat_add_NaN)
  next
    case False
    then show ?thesis
      by (simp add: pooled_cov_def c mat_zip_def)
  qed
qed

text \<open>
  Claim C3 (amended). When every row of the distortion matrix contains a NaN,
  \<open>niqe\<close> reports no failure of its own. No row is left, \<open>np.cov\<close> of the empty
  sample is the matrix with NaN everywhere, it is pooled with the pristine covariance
  (NaN everywhere again, or ValueError when the shapes differ) and handed to the
  pseudo-inverse: the outcome is the exception of \<open>pinv\<close> when it raises on that
  matrix, and otherwise the score computed from what it returns.
\<close>

theorem empty_sample_covariance_unchecked:
  "(\<forall>row \<in> set distparam. list_ex fisnan row) \<longrightarrow>
     distparam_no_nan distparam = []
   \<and> cov_distparam distparam = replicate (ncols distparam) (replicate (ncols distparam) NaN)
   \<and> pooled_cov cov_pris distparam =
        (if map length cov_pris = replicate (ncols distparam) (ncols distparam)
         then Inr (replicate (ncols distparam) (replicate (ncols distparam) NaN))
         else Inl ValueError)
   \<and> niqe_quality e mu_pris cov_pris distparam =
        (if map length cov_pris = replicate (ncols distparam) (ncols distparam)
         then ebind (pinv e (replicate (ncols distparam) (replicate (ncols distparam) NaN)))
                (\<lambda>invcov_param. niqe_score mu_pris (mu_distparam distparam) invcov_param)
         else Inl ValueError)"
proof
  assume a: "\<forall>row \<in> set distparam. list_ex fisnan row"
  have 1: "distparam_no_nan distparam = []"
    using a by (rule distparam_no_nan_empty)
  have 2: "cov_distparam distparam
           = replicate (ncols distparam) (replicate (ncols distparam) NaN)"
    by (simp add: cov_distparam_def 1 np_cov_no_rows)
  note 3 = pooled_cov_empty_sample [OF a, of cov_pris]
  have 4: "niqe_quality e mu_pris cov_pris distparam =
        (if map length cov_pris = replicate (ncols distparam) (ncols distparam)
         then ebind (pinv e (replicate (ncols distparam) (replicate (ncols distparam) NaN)))
                (\<lambda>invcov_param. niqe_score mu_pris (mu_distparam distparam) invcov_param)
         else Inl ValueError)"
    by (simp add: niqe_quality_def 3)
  show "distparam_no_nan distparam = []
   \<and> cov_distparam distparam = replicate (ncols distparam) (replicate (ncols distparam) NaN)
   \<and> pooled_cov cov_pris distparam =
        (if map length cov_pris = replicate (ncols distparam) (ncols distparam)
         then Inr (replicate (ncols distparam) (replicate (ncols distparam) NaN))
         else Inl ValueError)
   \<and> niqe_quality e mu_pris cov_pris distparam =
        (if map length cov_pris = replicate (ncols distparam) (ncols distparam)
         then ebind (pinv e (replicate (ncols distparam) (replicate (ncols distparam) NaN)))
                (\<lambda>invcov_param. niqe_score mu_pris (mu_distparam distparam) invcov_param)
         else Inl ValueError)"
    using 1 2 3 4 by blast
qed

lemma ncols_replicate: "0 < n \<Longrightarrow> ncols (replicate n r) = length r"
  by (cases n) (simp_all add: ncols_def)

lemma zero_rows_have_nan:
  "\<forall>row \<in> set (replicate 4 (zero_block_feature @ zero_block_feature)). list_ex fisnan row"
  by (simp add: zero_block_feature_def)

lemma zero_rows_ncols: "ncols (replicate 4 (zero_block_feature @ zero_block_feature)) = 36"
  by (simp add: ncols_replicate zero_block_feature_def)

text \<open>
  Claim C3 as stated fails on the all-zero 192x192 image: each of the four rows of
  its distortion matrix contains a NaN, no row is left for the covariance, and the
  covariance step still returns a matrix (NaN everywhere), which is passed on to the
  pseudo-inverse; no empty-sample failure is raised.
\<close>

theorem empty_sample_covariance_pooled:
  "niqe_distparam ext_example (NDArray [192, 192] (replicate 36864 (Fin 0))) [[Fin 1]] 96 96
     = Inr (replicate 4 (zero_block_feature @ zero_block_feature))
   \<and> distparam_no_nan (replicate 4 (zero_block_feature @ zero_block_feature)) = []
   \<and> pooled_cov (replicate 36 (replicate 36 (Fin 0)))
        (replicate 4 (zero_block_feature @ zero_block_feature))
     = Inr (replicate 36 (replicate 36 NaN))"
  using niqe_distparam_192 distparam_no_nan_empty [OF zero_rows_have_nan]
    pooled_cov_empty_sample [OF zero_rows_have_nan, of "replicate 36 (replicate 36 (Fin 0))"]
  by (simp add: zero_rows_ncols)

text \<open>
  On the same matrix, with a pseudo-inverse that raises LinAlgError on a matrix that
  is not finite, the failure the caller sees is that LinAlgError.
\<close>

theorem empty_sample_covariance_unchecked_witness:
  "distparam_no_nan (replicate 4 (zero_block_feature @ zero_block_feature)) = []
   \<and> niqe_quality ext_example (replicate 36 (Fin 0)) (replicate 36 (replicate 36 (Fin 0)))
        (replicate 4 (zero_block_feature @ zero_block_feature))
     = Inl LinAlgError
   \<and> niqe ext_example (NDArray [192, 192] (replicate 36864 (Fin 0)))
        (replicate 36 (Fin 0)) (replicate 36 (replicate 36 (Fin 0))) [[Fin 1]] 96 96
     = Inl LinAlgError"
proof -
  let ?D = "replicate 4 (zero_block_feature @ zero_block_feature)"
  note t = empty_sample_covariance_unchecked [where distparam = ?D and e = ext_example
      and mu_pris = "replicate 36 (Fin 0)" and cov_pris = "replicate 36 (replicate 36 (Fin 0))"]
  have p: "pinv ext_example (replicate 36 (replicate 36 NaN)) = Inl LinAlgError"
    by (simp add: ext_example_def pinv_example_def numeral_eq_Suc)
  from t zero_rows_have_nan have 1: "distparam_no_nan ?D = []"
    by blast
  from t zero_rows_have_nan have
    "niqe_quality ext_example (replicate 36 (Fin 0)) (replicate 36 (replicate 36 (Fin 0))) ?D =
        (if map length (replicate 36 (replicate 36 (Fin 0))) = replicate (ncols ?D) (ncols ?D)
         then ebind (pinv ext_example (replicate (ncols ?D) (replicate (ncols ?D) NaN)))
                (\<lambda>invcov_param. niqe_score (replicate 36 (Fin 0)) (mu_distparam ?D) invcov_param)
         else Inl ValueError)"
    by blast
  then have 2: "niqe_quality ext_example (replicate 36 (Fin 0))
      (replicate 36 (replicate 36 (Fin 0))) ?D = Inl LinAlgError"
    by (simp add: zero_rows_ncols p)
  have 3: "niqe ext_example (NDArray [192, 192] (replicate 36864 (Fin 0)))
        (replicate 36 (Fin 0)) (replicate 36 (replicate 36 (Fin 0))) [[Fin 1]] 96 96
     = Inl LinAlgError"
    by (simp add: niqe_def niqe_distparam_192 2)
  show ?thesis using 1 2 3 by blast
qed

subsection \<open>The square root of the quadratic form\<close>

lemma foldl_fadd_replicate:
  "foldl fadd (Fin a) (replicate n (Fin c)) = Fin (a + real n * c)"
  by (induction n arbitrary: a) (simp_all add: algebra_simps)

lemma fsum_replicate: "fsum (replicate n (Fin c)) = Fin (real n * c)"
  by (simp add: fsum_def foldl_fadd_replicate)

lemma quadratic_form_constant:
  assumes "0 < n"
  shows "quadratic_form (replicate n (Fin 1)) (replicate n (Fin 0)) (replicate n (replicate n (Fin c)))
         = Inr (Fin (real n * (real n * c)))"
proof -
  let ?M = "replicate n (replicate n (Fin c))"
  have d: "vec_zip fsub (replicate n (Fin 1)) (replicate n (Fin 0)) = Inr (replicate n (Fin 1))"
    by (simp add: vec_zip_def fsub_def)
  have nc: "ncols ?M = n" using assms by (simp add: ncols_replicate)
  have col: "column ?M j = replicate n (Fin c)" if "j < n" for j
    using that by (simp add: column_def)
  have "map (\<lambda>j. fsum (map2 fmul (replicate n (Fin 1)) (column ?M j))) [0..<n]
        = map (\<lambda>j. Fin (real n * c)) [0..<n]"
    by (intro map_cong) (simp_all add: col fsum_replicate)
  then have t: "vec_mat (replicate n (Fin 1)) ?M = Inr (replicate n (Fin (real n * c)))"
    by (simp add: vec_mat_def nc map_replicate_const list_ex_iff)
  have "vec_dot (replicate n (Fin (real n * c))) (replicate n (Fin 1))
        = Inr (Fin (real n * (real n * c)))"
    by (simp add: vec_dot_def fsum_replicate)
  then show ?thesis by (simp add: quadratic_form_def d t)
qed

text \<open>
  Claim C1 (amended). The score is \<open>np.sqrt\<close> of the quadratic form, with no
  clamping: it is never negative (non-negative, \<open>+inf\<close> or NaN); it is the
  non-negative root when the quadratic form is a non-negative number, and NaN when
  the quadratic form is a negative number. This last step is the one \<open>niqe\<close> ends
  with, on the pseudo-inverse of the pooled covariance.
\<close>

theorem niqe_score_unclamped:
  "(\<forall>q. quadratic_form mu_pris mu_dist invcov_param = Inr q \<longrightarrow>
      niqe_score mu_pris mu_dist invcov_param = Inr (fsqrt q) \<and> nonneg_or_nan (fsqrt q))
   \<and> (\<forall>x. quadratic_form mu_pris mu_dist invcov_param = Inr (Fin x) \<and> x < 0 \<longrightarrow>
      niqe_score mu_pris mu_dist invcov_param = Inr NaN)
   \<and> (\<forall>x. quadratic_form mu_pris mu_dist invcov_param = Inr (Fin x) \<and> 0 \<le> x \<longrightarrow>
      niqe_score mu_pris mu_dist invcov_param = Inr (Fin (sqrt x)))
   \<and> niqe e img mu_pris cov_pris window bsh bsw =
       ebind (niqe_distparam e img window bsh bsw) (\<lambda>distparam.
       ebind (pooled_cov cov_pris distparam) (\<lambda>pooled.
       ebind (pinv e pooled) (\<lambda>invcov.
         niqe_score mu_pris (mu_distparam distparam) invcov)))"
proof -
  have "niqe_quality e mu_pris cov_pris =
          (\<lambda>distparam.
             ebind (pooled_cov cov_pris distparam) (\<lambda>pooled.
             ebind (pinv e pooled) (\<lambda>invcov.
               niqe_score mu_pris (mu_distparam distparam) invcov)))"
    by (rule ext) (simp add: niqe_quality_def)
  then have "niqe e img mu_pris cov_pris window bsh bsw =
       ebind (niqe_distparam e img window bsh bsw) (\<lambda>distparam.
       ebind (pooled_cov cov_pris distparam) (\<lambda>pooled.
       ebind (pinv e pooled) (\<lambda>invcov.
         niqe_score mu_pris (mu_distparam distparam) invcov)))"
    by (simp only: niqe_def)
  then show ?thesis
    by (auto simp: niqe_score_def nonneg_or_nan_fsqrt)
qed

text \<open>
  Claim C1 as stated fails when the quadratic form is negative: for the difference
  vector of 36 ones and the inverse covariance with every entry \<open>-1\<close>, the quadratic
  form is \<open>-1296\<close> and the score is NaN, not zero.
\<close>

theorem niqe_score_negative_form:
  "quadratic_form (replicate 36 (Fin 1)) (replicate 36 (Fin 0))
       (replicate 36 (replicate 36 (Fin (- 1)))) = Inr (Fin (- 1296))
   \<and> niqe_score (replicate 36 (Fin 1)) (replicate 36 (Fin 0))
       (replicate 36 (replicate 36 (Fin (- 1)))) = Inr NaN"
  using quadratic_form_constant [of 36 "- 1"] by (simp add: niqe_score_def)

text \<open>
  The two cases: the quadratic form \<open>-1296\<close> gives NaN, the quadratic form \<open>1296\<close>
  gives its root.
\<close>

theorem niqe_score_unclamped_witness:
  "niqe_score (replicate 36 (Fin 1)) (replicate 36 (Fin 0))
       (replicate 36 (replicate 36 (Fin (- 1)))) = Inr NaN
   \<and> niqe_score (replicate 36 (Fin 1)) (replicate 36 (Fin 0))
       (replicate 36 (replicate 36 (Fin 1))) = Inr (Fin (sqrt 1296))"
proof -
  have a: "quadratic_form (replicate 36 (Fin 1)) (replicate 36 (Fin 0))
       (replicate 36 (replicate 36 (Fin (- 1)))) = Inr (Fin (- 1296)) \<and> (- 1296 :: real) < 0"
    using quadratic_form_constant [of 36 "- 1"] by simp
  have b: "quadratic_form (replicate 36 (Fin 1)) (replicate 36 (Fin 0))
       (replicate 36 (replicate 36 (Fin 1))) = Inr (Fin 1296) \<and> (0 :: real) \<le> 1296"
    using quadratic_form_constant [of 36 1] by simp
  have 1: "niqe_score (replicate 36 (Fin 1)) (replicate 36 (Fin 0))
       (replicate 36 (replicate 36 (Fin (- 1)))) = Inr NaN"
    using niqe_score_unclamped [where mu_pris = "replicate 36 (Fin 1)"
        and mu_dist = "replicate 36 (Fin 0)"
        and invcov_param = "replicate 36 (replicate 36 (Fin (- 1)))"] a
    by blast
  have 2: "niqe_score (replicate 36 (Fin 1)) (replicate 36 (Fin 0))
       (replicate 36 (replicate 36 (Fin 1))) = Inr (Fin (sqrt 1296))"
    using niqe_score_unclamped [where mu_pris = "replicate 36 (Fin 1)"
        and mu_dist = "replicate 36 (Fin 0)"
        and invcov_param = "replicate 36 (replicate 36 (Fin 1))"] b
    by blast
  show ?thesis using 1 2 by blast
qed

end
